theory Spec2Isabelle
  imports Complex_Main
begin

section \<open>JavaScript numbers\<close>

text \<open>
  The simulator computes on JavaScript numbers. A number is modelled as a finite value,
  one of the two infinities, or NaN. Finite values are exact reals: rounding, overflow
  of finite operands and the sign of zero are not represented. Every operation follows
  the IEEE rules for the special values (NaN is contagious, comparisons with NaN are
  false, a nonzero finite value divided by zero is an infinity, zero by zero is NaN).
\<close>

datatype number = Fin real | PInf | NInf | NaN

fun num_uminus :: "number \<Rightarrow> number" where
  "num_uminus (Fin a) = Fin (- a)"
| "num_uminus PInf = NInf"
| "num_uminus NInf = PInf"
| "num_uminus NaN = NaN"

fun num_plus :: "number \<Rightarrow> number \<Rightarrow> number" where
  "num_plus (Fin a) (Fin b) = Fin (a + b)"
| "num_plus NaN _ = NaN"
| "num_plus _ NaN = NaN"
| "num_plus PInf NInf = NaN"
| "num_plus NInf PInf = NaN"
| "num_plus PInf _ = PInf"
| "num_plus _ PInf = PInf"
| "num_plus NInf _ = NInf"
| "num_plus _ NInf = NInf"

text \<open>The sign of a number: 1, 0 or -1 (0 for NaN, which the callers exclude first).\<close>

fun num_sign :: "number \<Rightarrow> int" where
  "num_sign (Fin a) = (if 0 < a then 1 else if a < 0 then - 1 else 0)"
| "num_sign PInf = 1"
| "num_sign NInf = - 1"
| "num_sign NaN = 0"

definition signed_inf :: "int \<Rightarrow> number" where
  "signed_inf s = (if 0 < s then PInf else if s < 0 then NInf else NaN)"

fun num_times :: "number \<Rightarrow> number \<Rightarrow> number" where
  "num_times (Fin a) (Fin b) = Fin (a * b)"
| "num_times NaN _ = NaN"
| "num_times _ NaN = NaN"
| "num_times a b = signed_inf (num_sign a * num_sign b)"

fun num_divide :: "number \<Rightarrow> number \<Rightarrow> number" where
  "num_divide (Fin a) (Fin b) = (if b \<noteq> 0 then Fin (a / b) else signed_inf (num_sign (Fin a)))"
| "num_divide NaN _ = NaN"
| "num_divide _ NaN = NaN"
| "num_divide (Fin a) _ = Fin 0"
| "num_divide a (Fin b) = signed_inf (num_sign a * (if b < 0 then - 1 else 1))"
| "num_divide _ _ = NaN"

fun num_abs :: "number \<Rightarrow> number" where
  "num_abs (Fin a) = Fin \<bar>a\<bar>"
| "num_abs PInf = PInf"
| "num_abs NInf = PInf"
| "num_abs NaN = NaN"

fun num_less :: "number \<Rightarrow> number \<Rightarrow> bool" where
  "num_less (Fin a) (Fin b) = (a < b)"
| "num_less NaN _ = False"
| "num_less _ NaN = False"
| "num_less _ NInf = False"
| "num_less PInf _ = False"
| "num_less _ _ = True"

fun num_less_eq :: "number \<Rightarrow> number \<Rightarrow> bool" where
  "num_less_eq (Fin a) (Fin b) = (a \<le> b)"
| "num_less_eq NaN _ = False"
| "num_less_eq _ NaN = False"
| "num_less_eq NInf _ = True"
| "num_less_eq _ PInf = True"
| "num_less_eq _ _ = False"

instantiation number :: "{zero, one, numeral, power, minus, uminus, times, inverse, abs, sgn, ord}"
begin

definition zero_num_def: "0 = Fin 0"
definition one_num_def: "1 = Fin 1"
definition plus_num_def: "a + b = num_plus a b"
definition uminus_num_def: "- a = num_uminus a"
definition minus_num_def: "a - b = num_plus a (num_uminus b)"
definition times_num_def: "a * b = num_times a b"
definition divide_num_def: "a div b = num_divide a b"
definition inverse_num_def: "inverse a = num_divide (Fin 1) a"
definition abs_num_def: "\<bar>a\<bar> = num_abs a"
definition sgn_num_def: "sgn a = (case a of NaN \<Rightarrow> NaN | _ \<Rightarrow> Fin (real_of_int (num_sign a)))"
definition less_num_def: "a < b = num_less a b"
definition less_eq_num_def: "a \<le> b = num_less_eq a b"

instance
proof
  fix a b c :: number
  show "a + b + c = a + (b + c)"
    unfolding plus_num_def by (cases a; cases b; cases c) simp_all
qed

end

lemma numeral_num [simp]: "(numeral k :: number) = Fin (numeral k)"
  by (induction k) (simp_all only: numeral.simps one_num_def plus_num_def num_plus.simps)

lemma zero_num [simp]: "(0 :: number) = Fin 0"
  by (simp add: zero_num_def)

lemma one_num [simp]: "(1 :: number) = Fin 1"
  by (simp add: one_num_def)

lemma Fin_arith [simp]:
  "Fin a + Fin b = Fin (a + b)"
  "Fin a - Fin b = Fin (a - b)"
  "Fin a * Fin b = Fin (a * b)"
  "- Fin a = Fin (- a)"
  "\<bar>Fin a\<bar> = Fin \<bar>a\<bar>"
  "b \<noteq> 0 \<Longrightarrow> Fin a / Fin b = Fin (a / b)"
  by (simp_all add: plus_num_def minus_num_def times_num_def uminus_num_def abs_num_def
      divide_num_def)

lemma Fin_power [simp]: "Fin a ^ n = Fin (a ^ n)"
  by (induction n) (simp_all add: one_num_def times_num_def)

lemma Fin_compare [simp]:
  "Fin a < Fin b \<longleftrightarrow> a < b"
  "Fin a \<le> Fin b \<longleftrightarrow> a \<le> b"
  by (simp_all add: less_num_def less_eq_num_def)

lemma NaN_compare [simp]:
  "\<not> NaN < x" "\<not> x < NaN" "\<not> NaN \<le> x" "\<not> x \<le> NaN"
  by (cases x; simp add: less_num_def less_eq_num_def)+

lemma NaN_arith [simp]:
  "NaN + x = NaN" "x + NaN = NaN" "NaN - x = NaN" "x - NaN = NaN"
  "NaN * x = NaN" "x * NaN = NaN" "NaN / x = NaN" "x / NaN = NaN"
  "- NaN = NaN" "\<bar>NaN\<bar> = NaN"
  by (cases x; simp add: plus_num_def minus_num_def times_num_def uminus_num_def abs_num_def
      divide_num_def)+

subsection \<open>The functions of \<open>Math\<close> and the global predicates\<close>

fun Math_sqrt :: "number \<Rightarrow> number" where
  "Math_sqrt (Fin a) = (if 0 \<le> a then Fin (sqrt a) else NaN)"
| "Math_sqrt PInf = PInf"
| "Math_sqrt NInf = NaN"
| "Math_sqrt NaN = NaN"

text \<open>
  \<open>Math.pow\<close>. Every exponent in the source is a finite constant (2, 3, 4, 0.5 or a
  wind exponent), so the exponent is a real.
\<close>

definition Math_pow :: "number \<Rightarrow> real \<Rightarrow> number" where
  "Math_pow b e =
     (if e = 0 then Fin 1
      else case b of
        NaN \<Rightarrow> NaN
      | Fin x \<Rightarrow>
          (if 0 < x then Fin (x powr e)
           else if x = 0 then (if 0 < e then Fin 0 else PInf)
           else if e \<in> \<int> then Fin ((if odd \<lfloor>e\<rfloor> then - 1 else 1) * ((- x) powr e))
           else NaN)
      | PInf \<Rightarrow> (if 0 < e then PInf else Fin 0)
      | NInf \<Rightarrow> (if 0 < e then (if e \<in> \<int> \<and> odd \<lfloor>e\<rfloor> then NInf else PInf) else Fin 0))"

definition Math_min :: "number \<Rightarrow> number \<Rightarrow> number" where
  "Math_min a b = (if a = NaN \<or> b = NaN then NaN else if a \<le> b then a else b)"

definition Math_max :: "number \<Rightarrow> number \<Rightarrow> number" where
  "Math_max a b = (if a = NaN \<or> b = NaN then NaN else if a \<le> b then b else a)"

fun Math_sin :: "number \<Rightarrow> number" where
  "Math_sin (Fin a) = Fin (sin a)"
| "Math_sin _ = NaN"

fun Math_cos :: "number \<Rightarrow> number" where
  "Math_cos (Fin a) = Fin (cos a)"
| "Math_cos _ = NaN"

fun Math_atan :: "number \<Rightarrow> number" where
  "Math_atan (Fin a) = Fin (arctan a)"
| "Math_atan PInf = Fin (pi / 2)"
| "Math_atan NInf = Fin (- pi / 2)"
| "Math_atan NaN = NaN"

fun Math_atan2 :: "number \<Rightarrow> number \<Rightarrow> number" where
  "Math_atan2 (Fin y) (Fin x) =
     (if 0 < x then Fin (arctan (y / x))
      else if x < 0 then (if 0 \<le> y then Fin (arctan (y / x) + pi) else Fin (arctan (y / x) - pi))
      else if 0 < y then Fin (pi / 2)
      else if y < 0 then Fin (- pi / 2)
      else Fin 0)"
| "Math_atan2 NaN _ = NaN"
| "Math_atan2 _ NaN = NaN"
| "Math_atan2 (Fin y) PInf = Fin 0"
| "Math_atan2 (Fin y) NInf = (if 0 \<le> y then Fin pi else Fin (- pi))"
| "Math_atan2 PInf (Fin x) = Fin (pi / 2)"
| "Math_atan2 NInf (Fin x) = Fin (- pi / 2)"
| "Math_atan2 PInf PInf = Fin (pi / 4)"
| "Math_atan2 PInf NInf = Fin (3 * pi / 4)"
| "Math_atan2 NInf PInf = Fin (- pi / 4)"
| "Math_atan2 NInf NInf = Fin (- 3 * pi / 4)"

fun Math_floor :: "number \<Rightarrow> number" where
  "Math_floor (Fin a) = Fin (of_int \<lfloor>a\<rfloor>)"
| "Math_floor x = x"

text \<open>\<open>Math.round\<close> rounds half up.\<close>

fun Math_round :: "number \<Rightarrow> number" where
  "Math_round (Fin a) = Fin (of_int \<lfloor>a + 1 / 2\<rfloor>)"
| "Math_round x = x"

definition Math_sign :: "number \<Rightarrow> number" where
  "Math_sign a = sgn a"

definition isFinite :: "number \<Rightarrow> bool" where
  "isFinite a = (case a of Fin _ \<Rightarrow> True | _ \<Rightarrow> False)"

definition isNaN :: "number \<Rightarrow> bool" where
  "isNaN a = (a = NaN)"

text \<open>Strict equality \<open>===\<close> of two numbers: NaN equals nothing.\<close>

definition js_eq :: "number \<Rightarrow> number \<Rightarrow> bool" where
  "js_eq a b = (a \<noteq> NaN \<and> a = b)"

text \<open>A number is falsy when it is zero or NaN; \<open>a || b\<close> on numbers.\<close>

definition falsy :: "number \<Rightarrow> bool" where
  "falsy a = (a = Fin 0 \<or> a = NaN)"

definition js_or :: "number \<Rightarrow> number \<Rightarrow> number" where
  "js_or a b = (if falsy a then b else a)"

text \<open>The remainder operator \<open>%\<close>: the result has the sign of the dividend.\<close>

fun js_rem :: "number \<Rightarrow> number \<Rightarrow> number" where
  "js_rem (Fin a) (Fin b) =
     (if b = 0 then NaN
      else Fin (a - b * of_int (if 0 \<le> a / b then \<lfloor>a / b\<rfloor> else \<lceil>a / b\<rceil>)))"
| "js_rem NaN _ = NaN"
| "js_rem _ NaN = NaN"
| "js_rem (Fin a) _ = Fin a"
| "js_rem _ _ = NaN"

section \<open>Constants (RocketConstants)\<close>

datatype motor = Motor_half_A6_2 | Motor_A8_3 | Motor_B6_4

text \<open>The keys of \<open>MOTOR_THRUST_DATA\<close>: the motor designations.\<close>

fun motorName :: "motor \<Rightarrow> string" where
  "motorName Motor_half_A6_2 = ''1/2A6-2''"
| "motorName Motor_A8_3 = ''A8-3''"
| "motorName Motor_B6_4 = ''B6-4''"

fun MOTOR_THRUST_DATA :: "motor \<Rightarrow> number list" where
  "MOTOR_THRUST_DATA Motor_half_A6_2 = map Fin
     [0.000,0.445,0.891,1.336,1.782,2.227,2.673,3.118,3.564,4.009,4.455,3.345,2.236,2.012,
      1.789,1.565,1.341,1.118,1.118,1.118,1.118,1.118,1.118,1.118,1.118,1.118,1.118,1.118,
      1.118,1.118,0.894,0.671,0.447,0.224]"
| "MOTOR_THRUST_DATA Motor_A8_3 = map Fin
     [0.000,0.891,1.782,2.673,3.564,4.455,5.345,6.236,7.127,8.018,8.909,9.800,6.900,4.000,
      3.600,3.200,2.800,2.400,2.400,2.400,2.400,2.400,2.400,2.400,2.400,2.400,2.400,2.400,
      2.400,2.400,2.400,2.400,2.400,1.600,0.800]"
| "MOTOR_THRUST_DATA Motor_B6_4 = map Fin
     [0.000,1.782,3.564,5.345,7.127,8.909,10.691,12.473,14.255,16.036,17.818,19.600,13.800,
      8.000,7.200,6.400,5.600,4.800,4.800,4.800,4.800,4.800,4.800,4.800,4.800,4.800,4.800,
      4.800,4.800,4.800,4.800,3.200,1.600]"

datatype finMaterialKey = light_balsa | balsa | light_veneer

text \<open>The fields \<open>E\<close>, \<open>G\<close> and \<open>MD\<close> of a material.\<close>

record material =
  mat_E :: number
  mat_G :: number
  mat_MD :: number

fun FIN_MATERIALS :: "finMaterialKey \<Rightarrow> material" where
  "FIN_MATERIALS light_balsa = \<lparr>mat_E = 2450000000, mat_G = 85750000, mat_MD = 60\<rparr>"
| "FIN_MATERIALS balsa = \<lparr>mat_E = 3000000000, mat_G = 120000000, mat_MD = 125\<rparr>"
| "FIN_MATERIALS light_veneer = \<lparr>mat_E = 8000000000, mat_G = 450000000, mat_MD = 500\<rparr>"

datatype noseShapeKey = cone | parabola | ogive

fun NOSE_SHAPES_cd :: "noseShapeKey \<Rightarrow> number" where
  "NOSE_SHAPES_cd cone = 0.83"
| "NOSE_SHAPES_cd parabola = 0.7"
| "NOSE_SHAPES_cd ogive = 0.61"

datatype windProfileKey = uniform | openSea | farmland | suburban | urban

fun WIND_PROFILES_alpha :: "windProfileKey \<Rightarrow> real" where
  "WIND_PROFILES_alpha uniform = 0"
| "WIND_PROFILES_alpha openSea = 0.12"
| "WIND_PROFILES_alpha farmland = 0.2"
| "WIND_PROFILES_alpha suburban = 0.3"
| "WIND_PROFILES_alpha urban = 0.4"

definition launchRailLength :: number where
  "launchRailLength = 0.65"

definition ANGLE_RESPONSE_DT :: number where
  "ANGLE_RESPONSE_DT = 0.2"

definition ANGLE_STEPS_PER_UPDATE :: nat where
  "ANGLE_STEPS_PER_UPDATE = 10"

definition mmToM :: "number \<Rightarrow> number" where
  "mmToM mm = mm / 1000"

definition gToKg :: "number \<Rightarrow> number" where
  "gToKg g = g / 1000"

section \<open>The wind profile\<close>

definition calculateWindSpeedAtHeight :: "number \<Rightarrow> number \<Rightarrow> windProfileKey \<Rightarrow> number" where
  "calculateWindSpeedAtHeight baseWindSpeed height profile =
     (if height \<le> 0 then baseWindSpeed
      else
        let alpha = WIND_PROFILES_alpha profile in
        if alpha = 0 then baseWindSpeed
        else
          let referenceHeight = 1.5;
              heightRatio = height / referenceHeight;
              windSpeedMultiplier = Math_pow heightRatio alpha;
              maxMultiplier = 3.0;
              actualMultiplier = Math_min windSpeedMultiplier maxMultiplier
          in baseWindSpeed * actualMultiplier)"

section \<open>The rocket design\<close>

datatype parachuteKey = Chute180 | Chute250 | Chute300 | Chute600 | Chute900

text \<open>
  The keys of \<open>PARACHUTE_SIZES\<close> are a one-character diameter sign followed by the
  diameter in millimetres. The sign is not an ASCII character; it is written \<open>#\<close> here.
\<close>

fun parachuteName :: "parachuteKey \<Rightarrow> string" where
  "parachuteName Chute180 = ''#180''"
| "parachuteName Chute250 = ''#250''"
| "parachuteName Chute300 = ''#300''"
| "parachuteName Chute600 = ''#600''"
| "parachuteName Chute900 = ''#900''"

text \<open>
  The parameter object. \<open>finCp\<close> is absent from the object the caller builds and is
  written by \<open>calculateFlightPath\<close> itself; an absent \<open>finCp\<close> is the value NaN here
  (its only read before that write is \<open>mmToM(rocketParams.finCp)\<close>, which is NaN for
  \<open>undefined\<close>).
\<close>

record rocketParams =
  noseShape :: noseShapeKey
  noseHeight :: number
  bodyHeight :: number
  bodyWidth :: number
  finHeight :: number
  finBaseWidth :: number
  finTipWidth :: number
  finThickness :: number
  finSweepLength :: number
  finMaterial :: finMaterialKey
  finCount :: number
  weight :: number
  centerOfGravity :: number
  finCp :: number
  selectedMotor :: motor
  selectedParachute :: parachuteKey

section \<open>Aerodynamic properties (RocketPhysics)\<close>

record projectedAreas =
  frontalArea :: number
  sideArea :: number
  noseArea :: number
  finArea :: number
  totalFinArea :: number
  angledArea :: number

text \<open>\<open>calculateProjectedArea\<close> past its two guards (lines 58 to 122).\<close>

definition calculateProjectedArea :: "rocketParams \<Rightarrow> projectedAreas" where
  "calculateProjectedArea rocketParams =
     (let noseHeight_m = mmToM (noseHeight rocketParams);
          bodyHeight_m = mmToM (bodyHeight rocketParams);
          bodyWidth_m = mmToM (bodyWidth rocketParams);
          bodyRadius_m = bodyWidth_m / 2;
          finHeight_m = mmToM (finHeight rocketParams);
          finBaseWidth_m = mmToM (finBaseWidth rocketParams);
          finTipWidth_m = mmToM (finTipWidth rocketParams);
          frontalArea = Fin pi * Math_pow bodyRadius_m 2
            + (finHeight rocketParams * finThickness rocketParams) * 4 * 0.0000001;
          bodyArea = bodyWidth_m * bodyHeight_m;
          noseArea =
            (if noseShape rocketParams = cone then 0.5 * bodyWidth_m * noseHeight_m
             else if noseShape rocketParams = parabola then (2 / 3) * bodyWidth_m * noseHeight_m
             else (2 / 3) * bodyWidth_m * noseHeight_m);
          finArea =
            (if js_eq (finCount rocketParams) 3 then
               let adjustedFinHeight = finHeight_m * 1.73 / 2;
                   overlapFinBaseWidth =
                     (if finSweepLength rocketParams + finTipWidth rocketParams
                           \<ge> finBaseWidth rocketParams
                      then (((finTipWidth_m - finBaseWidth_m) * finBaseWidth_m * 0.078 / finHeight_m)
                              + finBaseWidth_m)
                            - finTipWidth_m * bodyWidth_m * 0.078 / finHeight_m
                      else ((finTipWidth_m - finBaseWidth_m) * finBaseWidth_m * 0.078 / finHeight_m)
                             + finBaseWidth_m)
               in (adjustedFinHeight * (finBaseWidth_m + finTipWidth_m) / 2)
                  - ((overlapFinBaseWidth + finBaseWidth_m)
                      * ((bodyWidth_m / 2) - bodyWidth_m * 1.73 / 4) / 2)
             else finHeight_m * (finBaseWidth_m + finTipWidth_m) / 2);
          totalFinArea = finArea * 2;
          sideArea = bodyArea + noseArea + totalFinArea;
          angledArea = Math_sqrt (Math_pow frontalArea 2 + Math_pow sideArea 2)
      in \<lparr>frontalArea = frontalArea, sideArea = sideArea, noseArea = noseArea,
           finArea = finArea, totalFinArea = totalFinArea, angledArea = angledArea\<rparr>)"

record volumes =
  bodyVolume :: number
  noseVolume :: number
  totalVolume :: number

definition calculateVolume :: "rocketParams \<Rightarrow> volumes" where
  "calculateVolume rocketParams =
     (let noseHeight_m = mmToM (noseHeight rocketParams);
          bodyHeight_m = mmToM (bodyHeight rocketParams);
          bodyRadius_m = mmToM (bodyWidth rocketParams) / 2;
          bodyVolume = Fin pi * Math_pow bodyRadius_m 2 * bodyHeight_m;
          noseVolume =
            (if noseShape rocketParams = cone
             then (1 / 3) * Fin pi * Math_pow bodyRadius_m 2 * noseHeight_m
             else if noseShape rocketParams = parabola
             then (1 / 2) * Fin pi * Math_pow bodyRadius_m 2 * noseHeight_m
             else (2 / 3) * Fin pi * Math_pow bodyRadius_m 2 * noseHeight_m);
          totalVolume = bodyVolume + noseVolume
      in \<lparr>bodyVolume = bodyVolume, noseVolume = noseVolume, totalVolume = totalVolume\<rparr>)"

record pressureCenter =
  noseCp :: number
  bodyCp :: number
  cp_finCp :: number
  centerOfPressure :: number
  foreBodyCp :: number

text \<open>The field \<open>finCp\<close> of the result is named \<open>cp_finCp\<close>.\<close>

definition calculateCenterOfPressure :: "rocketParams \<Rightarrow> pressureCenter" where
  "calculateCenterOfPressure rocketParams =
     (let noseHeight = noseHeight rocketParams;
          bodyHeight = bodyHeight rocketParams;
          finHeight = finHeight rocketParams;
          finBaseWidth = finBaseWidth rocketParams;
          finTipWidth = finTipWidth rocketParams;
          finSweepLength = finSweepLength rocketParams;
          finCount = finCount rocketParams;
          areas = calculateProjectedArea rocketParams;
          noseCp =
            (if noseShape rocketParams = cone then noseHeight * 0.666
             else if noseShape rocketParams = parabola then noseHeight * 0.614
             else noseHeight * 0.575);
          bodyCp = noseHeight + bodyHeight / 2;
          finArea_section1 =
            (if js_eq finCount 3 then (finBaseWidth * finHeight * 1.732 * 0.5) / 2
             else (finBaseWidth * finHeight) / 2);
          finArea_section2 =
            (if js_eq finCount 3 then (finTipWidth * finHeight * 1.732 * 0.5) / 2
             else (finTipWidth * finHeight) / 2);
          finCP_y_section1 = (finBaseWidth + finSweepLength) / 3;
          finCP_y_section2 = (finBaseWidth + finSweepLength + (finSweepLength + finTipWidth)) / 3;
          finSection_single =
            (if js_eq finCount 3 then (finBaseWidth + finTipWidth) * (finHeight * (1.732 / 2)) / 2
             else (finBaseWidth + finTipWidth) * finHeight / 2);
          finCP_single =
            ((finCP_y_section1 * finArea_section1) + (finCP_y_section2 * finArea_section2))
              / finSection_single;
          finCp = noseHeight + bodyHeight - finBaseWidth + finCP_single;
          noseArea = noseArea areas * 1000000;
          bodyArea = sideArea areas * 1000000 - noseArea - totalFinArea areas * 1000000;
          totalFinArea = totalFinArea areas * 1000000;
          totalArea = noseArea + bodyArea + totalFinArea;
          centerOfPressure = (noseCp * noseArea + bodyCp * bodyArea + finCp * totalFinArea) / totalArea;
          foreBodyArea = noseArea + bodyArea;
          foreBodyCp = (noseCp * noseArea + bodyCp * bodyArea) / foreBodyArea
      in \<lparr>noseCp = noseCp, bodyCp = bodyCp, cp_finCp = finCp,
           centerOfPressure = centerOfPressure, foreBodyCp = foreBodyCp\<rparr>)"

definition calculateAerodynamicCenter :: "rocketParams \<Rightarrow> number" where
  "calculateAerodynamicCenter rocketParams =
     (let noseHeight = noseHeight rocketParams;
          bodyHeight = bodyHeight rocketParams;
          bodyWidth = bodyWidth rocketParams;
          finHeight = finHeight rocketParams;
          finBaseWidth = finBaseWidth rocketParams;
          finTipWidth = finTipWidth rocketParams;
          finSweepLength = finSweepLength rocketParams;
          finCount = finCount rocketParams;
          lengthOfCo =
            (if js_eq finCount 3
             then ((finBaseWidth - finTipWidth) / (finHeight * 1.732 / 2))
                    * (((bodyWidth / 2) + finHeight) * (1.732 / 2)) + finTipWidth
             else ((finBaseWidth - finTipWidth) / finHeight) * ((bodyWidth / 2) + finHeight)
                    + finTipWidth);
          ramda = finTipWidth / lengthOfCo;
          volumeData = calculateVolume rocketParams;
          c_bar = (2 * lengthOfCo / 3) * (1 + ramda + Math_pow ramda 2) / (1 + ramda);
          y_bar =
            (if js_eq finCount 3
             then (((bodyWidth / 2) + finHeight) * (1.732 / 2)) * (1 + (2 * ramda)) / (3 * (1 + ramda))
             else (finHeight + (bodyWidth / 2)) * (1 + (2 * ramda)) / (3 * (1 + ramda)));
          wingArea =
            (if js_eq finCount 3
             then (finTipWidth + lengthOfCo) * (((bodyWidth / 2) + finHeight) * (1.732 / 2))
             else (finTipWidth + lengthOfCo) * ((bodyWidth / 2) + finHeight));
          Vstar_fus = totalVolume volumeData * 1000000000 / (c_bar * wingArea);
          aspectRatio =
            (if js_eq finCount 3
             then ((2 * ((bodyWidth / 2) + finHeight) * (1.732 / 2)))
                    * (2 * (((bodyWidth / 2) + finHeight) * (1.732 / 2))) / wingArea
             else ((2 * (finHeight + bodyWidth)) * (2 * (finHeight + bodyWidth))) / wingArea);
          cl_alpha =
            (if js_eq finCount 3
             then ((3.14 * aspectRatio) * 0.5)
                    * Math_pow (1 - Math_pow ((bodyWidth / 2)
                        / (((finHeight + (bodyWidth / 2)) * 1.732 / 4))) 2) 2
             else ((3.14 * aspectRatio) * 0.5)
                    * Math_pow (1 - Math_pow ((bodyWidth / 2)
                        / (((finHeight + (bodyWidth / 2)) / 2))) 2) 2);
          hn = 0.25 + (1 / cl_alpha) * (- 1) * (2 * Vstar_fus);
          hnwc_bar = hn * c_bar;
          x1 =
            (if js_eq finCount 3
             then (bodyWidth / 2) * (1.732 / 2) * finSweepLength / (finHeight * 1.732 / 2)
             else (bodyWidth / 2) * finSweepLength / finHeight);
          x2 =
            (if js_eq finCount 3
             then y_bar * (x1 + finSweepLength + finTipWidth - lengthOfCo)
                    / (((bodyWidth / 2) + finHeight) * 1.732 / 2)
             else y_bar * (x1 + finSweepLength + finTipWidth - lengthOfCo)
                    / (((bodyWidth / 2) + finHeight)));
          small_xac = c_bar - x2 - hnwc_bar;
          aerodynamicCenter = noseHeight + bodyHeight - small_xac
      in aerodynamicCenter)"

definition calculateStabilityCenterOfPressure :: "rocketParams \<Rightarrow> number" where
  "calculateStabilityCenterOfPressure rocketParams =
     (let noseHeight = noseHeight rocketParams;
          bodyHeight = bodyHeight rocketParams;
          bodyWidth = bodyWidth rocketParams;
          finHeight = finHeight rocketParams;
          finBaseWidth = finBaseWidth rocketParams;
          finTipWidth = finTipWidth rocketParams;
          finSweepLength = finSweepLength rocketParams;
          finCount = finCount rocketParams;
          mc = Math_pow ((Math_pow (finSweepLength + (finTipWidth / 2) - (finBaseWidth / 2)) 2)
                 + (Math_pow finHeight 2)) 0.5;
          noseStabilityCp =
            (if noseShape rocketParams = cone then noseHeight * 0.666
             else if noseShape rocketParams = parabola then noseHeight * 0.614
             else noseHeight * 0.575);
          fin_cn_1 = 1 + (finHeight / (finHeight + (bodyWidth / 2)));
          fin_cn_2 =
            (if js_eq finCount 3 then 12 * Math_pow (finHeight / bodyWidth) 2
             else 16 * Math_pow (finHeight / bodyWidth) 2);
          fin_cn_3 = 1 + Math_pow (1 + (Math_pow ((2 * mc) / (finTipWidth + finBaseWidth)) 2)) 0.5;
          fin_cn = fin_cn_1 * fin_cn_2 / fin_cn_3;
          cnTotal = 2 + fin_cn;
          finStabilityCp = (noseHeight + bodyHeight - finBaseWidth)
            + ((finSweepLength / 3) * ((finBaseWidth + 2 * finTipWidth) / (finBaseWidth + finTipWidth)))
            + ((finBaseWidth + finTipWidth)
                - ((finBaseWidth * finTipWidth) / (finBaseWidth + finTipWidth))) / 6;
          stabilityCenterOfPressure = (2 * noseStabilityCp + fin_cn * finStabilityCp) / cnTotal
      in stabilityCenterOfPressure)"

record staticMargins =
  standardStaticMargin :: number
  stabilityStaticMargin :: number

definition calculateStaticMargin :: "rocketParams \<Rightarrow> staticMargins" where
  "calculateStaticMargin rocketParams =
     (let cpData = calculateCenterOfPressure rocketParams;
          stabilityCp = calculateStabilityCenterOfPressure rocketParams;
          standardStaticMargin =
            (centerOfPressure cpData - centerOfGravity rocketParams) / bodyWidth rocketParams;
          stabilityStaticMargin =
            (stabilityCp - centerOfGravity rocketParams) / bodyWidth rocketParams
      in \<lparr>standardStaticMargin = standardStaticMargin,
           stabilityStaticMargin = stabilityStaticMargin\<rparr>)"

definition calculateFinDivergenceSpeed :: "rocketParams \<Rightarrow> number" where
  "calculateFinDivergenceSpeed rocketParams =
     (let finHeight_m = mmToM (finHeight rocketParams);
          finBaseWidth_m = mmToM (finBaseWidth rocketParams);
          finTipWidth_m = mmToM (finTipWidth rocketParams);
          finSweepLength_m = mmToM (finSweepLength rocketParams);
          finThickness_m = mmToM (finThickness rocketParams);
          material = FIN_MATERIALS (finMaterial rocketParams);
          G = mat_G material;
          rho = 1.225;
          meanChord = (finBaseWidth_m + finTipWidth_m) / 2;
          sweepbackAngle = Math_atan
            ((finSweepLength_m + 0.5 * finTipWidth_m - 0.5 * finBaseWidth_m) * 3.14 / meanChord);
          J = 0.3333 * finTipWidth_m * Math_pow finThickness_m 3;
          liftCoefficient_fin = (9 / 3.14) * Math_cos sweepbackAngle;
          divSpeed = (3.14 / (2 * finHeight_m))
            * Math_pow (2 * G * J / (rho * Math_pow meanChord 2 * 0.25 * liftCoefficient_fin)) 0.5
      in Math_max 20 (Math_min 300 divSpeed))"

definition calculateFinFlutterSpeed :: "rocketParams \<Rightarrow> number" where
  "calculateFinFlutterSpeed rocketParams =
     (let finHeight_m = mmToM (finHeight rocketParams);
          finBaseWidth_m = mmToM (finBaseWidth rocketParams);
          finTipWidth_m = mmToM (finTipWidth rocketParams);
          finThickness_m = mmToM (finThickness rocketParams);
          material = FIN_MATERIALS (finMaterial rocketParams);
          G = mat_G material;
          torsionConstant = 0.333 * finThickness_m * Math_pow finTipWidth_m 3;
          torsionalStiffness = G * torsionConstant;
          epsilon = 0.25;
          airDensity = 1.225;
          finSection_single = (finTipWidth_m + finBaseWidth_m) * finHeight_m * 0.5;
          half_finTipWidth = finTipWidth_m / 2;
          liftSlope = 3.44;
          flutterSpeed = Math_pow
            ((2 * torsionalStiffness)
               / (epsilon * airDensity * finSection_single * half_finTipWidth * liftSlope)) 0.5
      in Math_max 30 (Math_min 400 flutterSpeed))"

text \<open>The design the simulator starts with (\<open>initialRocketState\<close>, motor A8-3).\<close>

definition initialRocketState :: rocketParams where
  "initialRocketState =
     \<lparr>noseShape = ogive, noseHeight = 57, bodyHeight = 255, bodyWidth = 31,
      finHeight = 58.5, finBaseWidth = 65, finTipWidth = 25, finThickness = 1.5,
      finSweepLength = 95, finMaterial = light_veneer, finCount = 3, weight = 50,
      centerOfGravity = 150, finCp = NaN, selectedMotor = Motor_A8_3,
      selectedParachute = Chute300\<rparr>"

section \<open>Moments (RocketPhysics)\<close>

text \<open>
  \<open>calculateLiftMoment\<close> and \<open>calculateDragMoment\<close>. Both call sites pass numbers. The
  parameter \<open>rocketParams\<close> is not used by either body.
\<close>

definition calculateLiftMoment ::
  "number \<Rightarrow> number \<Rightarrow> number \<Rightarrow> rocketParams \<Rightarrow> number \<Rightarrow> number \<Rightarrow> number \<Rightarrow> number" where
  "calculateLiftMoment =
     (\<lambda>velocity omega flightAngle rocketParams sideArea aerodynamicCenter centerOfGravity.
     (let centerOfGravity_m = mmToM centerOfGravity;
          aerodynamicCenter_m = mmToM aerodynamicCenter;
          velocitySquared = Math_min (velocity * velocity) 10000;
          angleOfAttack = omega - flightAngle;
          liftCoefficient = 0.6 * angleOfAttack;
          momentMagnitude = \<bar>liftCoefficient * 0.5 * 1.225 * velocitySquared * sideArea
                               * (aerodynamicCenter_m - centerOfGravity_m)\<bar>;
          finalMoment =
            (if (aerodynamicCenter \<ge> centerOfGravity \<and> angleOfAttack < 0)
                \<or> (aerodynamicCenter < centerOfGravity \<and> angleOfAttack \<ge> 0)
             then momentMagnitude else - momentMagnitude)
      in if \<not> isFinite finalMoment \<or> isNaN finalMoment then 0 else finalMoment))"

definition calculateDragMoment ::
  "number \<Rightarrow> number \<Rightarrow> number \<Rightarrow> rocketParams \<Rightarrow> number \<Rightarrow> number \<Rightarrow> number \<Rightarrow> number" where
  "calculateDragMoment =
     (\<lambda>velocity omega flightAngle rocketParams bodyDiameter aerodynamicCenter centerOfGravity.
     (let centerOfGravity_m = mmToM centerOfGravity;
          aerodynamicCenter_m = mmToM aerodynamicCenter;
          velocitySquared = Math_min (velocity * velocity) 10000;
          angleOfAttack = omega - flightAngle;
          dragCoefficient = 0.01 * Math_pow angleOfAttack 2 - 0.02 * angleOfAttack + 0.63;
          momentMagnitude = \<bar>dragCoefficient * 0.5 * 1.225 * velocitySquared
                               * (bodyDiameter * 0.001 / 2) * (bodyDiameter * 0.001 / 2) * 3.14
                               * (aerodynamicCenter_m - centerOfGravity_m)\<bar>;
          finalMoment =
            (if (aerodynamicCenter \<ge> centerOfGravity \<and> angleOfAttack < 0)
                \<or> (aerodynamicCenter < centerOfGravity \<and> angleOfAttack \<ge> 0)
             then momentMagnitude else - momentMagnitude)
      in if \<not> isFinite finalMoment \<or> isNaN finalMoment then 0 else finalMoment))"

text \<open>
  \<open>calculateWindMoment\<close>. Both call sites pass numbers, for which \<open>== null\<close> is false:
  of the entry checks only the two \<open>isNaN\<close> replacements remain.
\<close>

definition calculateWindMoment ::
  "number \<Rightarrow> number \<Rightarrow> number \<Rightarrow> number \<Rightarrow> number \<Rightarrow> number \<Rightarrow> number \<Rightarrow> number \<Rightarrow> number" where
  "calculateWindMoment =
     (\<lambda>noseHeight bodyDiameter bodyHeight windSpeed0 omega0 totalFinArea centerOfPressure centerOfGravity.
     (let windSpeed = (if isNaN windSpeed0 then 0 else windSpeed0);
          omega = (if isNaN omega0 then 0 else omega0);
          centerOfGravity_m = mmToM centerOfGravity;
          centerOfPressure_m = mmToM centerOfPressure;
          bodyHeight_m = mmToM bodyHeight;
          noseHeight_m = mmToM noseHeight;
          safeWindSpeed = Math_max (- 25) (Math_min 25 windSpeed);
          Dwf = 1.28 * 0.05 * Math_pow safeWindSpeed 2 * totalFinArea;
          Dwb = 0.23 * 0.5 * 1.225 * Math_pow safeWindSpeed 2 * bodyDiameter
                  * (bodyHeight_m + noseHeight_m);
          cosAngle = Math_cos omega;
          momentMagnitude = \<bar>(Dwf + Dwb) * cosAngle * (centerOfPressure_m - centerOfGravity_m)\<bar>;
          finalMoment =
            (if (centerOfPressure \<ge> centerOfGravity \<and> windSpeed < 0)
                \<or> (centerOfPressure < centerOfGravity \<and> windSpeed \<ge> 0)
             then - momentMagnitude else momentMagnitude)
      in if \<not> isFinite finalMoment \<or> isNaN finalMoment then 0 else finalMoment))"

subsection \<open>The fin moment and its arguments\<close>

text \<open>
  \<open>calculateFinMoment\<close> has fourteen parameters and is called with eight arguments, one
  of them the parameter object. Its arguments are therefore JavaScript values: a missing
  argument is \<open>undefined\<close>. Strings are not among the values (no call passes one).
\<close>

datatype jsval = Undefined | Null | Bool bool | Num number | Obj

text \<open>
  \<open>ToNumber\<close>, which arithmetic, comparison with a number and the global \<open>isNaN\<close>
  apply to an operand. A plain object converts to NaN.
\<close>

fun ToNumber :: "jsval \<Rightarrow> number" where
  "ToNumber Undefined = NaN"
| "ToNumber Null = 0"
| "ToNumber (Bool b) = (if b then 1 else 0)"
| "ToNumber (Num n) = n"
| "ToNumber Obj = NaN"

text \<open>\<open>v == null\<close>.\<close>

definition eq_null :: "jsval \<Rightarrow> bool" where
  "eq_null v = (v = Undefined \<or> v = Null)"

text \<open>\<open>v === n\<close> for a number \<open>n\<close>.\<close>

definition strict_eq_num :: "jsval \<Rightarrow> number \<Rightarrow> bool" where
  "strict_eq_num v n = (case v of Num m \<Rightarrow> js_eq m n | _ \<Rightarrow> False)"

text \<open>
  The sum \<open>finBaseWidth + finTipWidth\<close> is the only \<open>+\<close> on raw arguments; it is at once
  multiplied by a number. With an object operand JavaScript concatenates strings and the
  product is NaN, which is also the value of the numeric sum written here.
\<close>

definition calculateFinMoment ::
  "jsval \<Rightarrow> jsval \<Rightarrow> jsval \<Rightarrow> jsval \<Rightarrow> jsval \<Rightarrow> jsval \<Rightarrow> jsval \<Rightarrow> jsval \<Rightarrow> jsval \<Rightarrow> jsval
     \<Rightarrow> jsval \<Rightarrow> jsval \<Rightarrow> jsval \<Rightarrow> jsval \<Rightarrow> number" where
  "calculateFinMoment =
     (\<lambda>finHeight finBaseWidth finSweepLength finTipWidth finCount velocity omega0 flightAngle0 finMaterial finCp noseHeight bodyHeight bodyWidth centerOfGravity.
     (let omega = (if eq_null omega0 \<or> isNaN (ToNumber omega0) then 0 else ToNumber omega0);
          flightAngle =
            (if eq_null flightAngle0 \<or> isNaN (ToNumber flightAngle0) then 0
             else ToNumber flightAngle0)
      in if eq_null centerOfGravity then 0
         else
           let centerOfGravity_m = mmToM (ToNumber centerOfGravity);
               finCp_m = mmToM (ToNumber finCp);
               rho = 1.225;
               finHeight_m = mmToM (ToNumber finHeight);
               finSweepLength_m = mmToM (ToNumber finSweepLength);
               finTipWidth_m = mmToM (ToNumber finTipWidth);
               finArea = ((ToNumber finBaseWidth + ToNumber finTipWidth) * 0.001)
                           * (ToNumber finHeight * 0.001) / 2;
               angleOfAttack = omega - flightAngle;
               finLeanArea =
                 (if strict_eq_num finCount 3
                  then \<bar>finHeight_m * (1.732 / 2) * (finSweepLength_m + finTipWidth_m)
                          * Math_sin angleOfAttack * finArea
                          / ((finSweepLength_m + finTipWidth_m) * finHeight_m)\<bar>
                  else \<bar>finHeight_m * (finSweepLength_m + finTipWidth_m)
                          * Math_sin angleOfAttack * finArea
                          / ((finSweepLength_m + finTipWidth_m) * finHeight_m)\<bar>);
               totalLeanFinArea = finLeanArea * 2;
               cd = 0.3 / (5 * 3.14 / 180) * angleOfAttack;
               dragOfFinLean = cd * 0.5 * rho * ToNumber velocity * ToNumber velocity
                                 * totalLeanFinArea;
               momentArm = mmToM \<bar>finCp_m - centerOfGravity_m\<bar>;
               noseHeight_m = mmToM (ToNumber noseHeight);
               bodyHeight_m = mmToM (ToNumber bodyHeight);
               bodyWidth_m = mmToM (ToNumber bodyWidth);
               noseBodyArea = bodyWidth_m * (noseHeight_m + bodyHeight_m);
               momentArm_b = mmToM \<bar>((noseHeight_m + bodyHeight_m) / 2) - centerOfGravity_m\<bar>;
               dragOfNoseBodyLean = cd * 0.5 * rho * ToNumber velocity * ToNumber velocity
                                      * noseBodyArea;
               momentMagnitude =
                 \<bar>((dragOfFinLean * momentArm) + (dragOfNoseBodyLean * momentArm_b))
                    * Math_sign angleOfAttack\<bar>;
               finalMoment =
                 (if (finCp_m \<ge> ToNumber centerOfGravity \<and> angleOfAttack < 0)
                     \<or> (finCp_m < ToNumber centerOfGravity \<and> angleOfAttack \<ge> 0)
                  then - momentMagnitude else momentMagnitude)
           in finalMoment))"

section \<open>Fin deflection (RocketPhysics)\<close>

record finParams =
  fp_finHeight :: number
  fp_finBaseWidth :: number
  fp_finTipWidth :: number
  fp_finThickness :: number
  fp_finSweepLength :: number

text \<open>
  \<open>calculateFinDeflection\<close>. Nothing in the \<open>try\<close> block throws on numbers, so the
  \<open>catch\<close> branch is not modelled. The parameter \<open>angleChangePerDt2\<close> is not used.
\<close>

definition calculateFinDeflection :: "number \<Rightarrow> material \<Rightarrow> finParams \<Rightarrow> number \<Rightarrow> number" where
  "calculateFinDeflection velocity material finParams angleChangePerDt2 =
     (let finHeight = fp_finHeight finParams;
          finBaseWidth = fp_finBaseWidth finParams;
          finTipWidth = fp_finTipWidth finParams;
          finThickness = fp_finThickness finParams;
          finSweepLength = fp_finSweepLength finParams;
          E = mat_E material
      in if \<bar>velocity\<bar> < 0.001 then 0
         else
           let safeFinThickness = js_or finThickness 2.0;
               safeVelocity = Math_min velocity 300;
               finArea = ((finBaseWidth + finTipWidth) * 0.001) * (finHeight * 0.001) / 2;
               taperRatio =
                 (if finHeight > 0
                  then Math_max (- 0.9) (Math_min 0.9
                         (((finBaseWidth * 0.001) - (finTipWidth * 0.001)) / (finHeight * 0.001)))
                  else 0);
               sweepAngle = Math_atan
                 ((finSweepLength * 0.001 + 0.5 * finTipWidth * 0.001 - 0.5 * finBaseWidth * 0.001)
                    * Fin pi / (finHeight * 0.001));
               meanChord = (finBaseWidth + finTipWidth) * 0.001 / 2;
               I0 = (meanChord * Math_pow (safeFinThickness * 0.001) 3) / 12;
               I = (if I0 < 0.000000000001 then 0.000000000001 else I0);
               dragCoefficient = 1.28;
               airDensity = 1.225;
               windForce = 0.5 * airDensity * safeVelocity * safeVelocity * dragCoefficient * finArea;
               unitLengthWindForce = windForce / Math_max 0.001 (finHeight * 0.001);
               deflectionFactor = (1 / (1 - taperRatio));
               second_moment_of_area = ((finBaseWidth + finTipWidth) * 0.001)
                                         * Math_pow (finThickness * 0.001) 3 / (2 * 12);
               rawDeflection = (unitLengthWindForce * Math_pow (finHeight * 0.001) 4
                                  * Math_cos sweepAngle / (8 * E * second_moment_of_area))
                                 * deflectionFactor;
               deflectionMm = rawDeflection * 1000
           in if isNaN deflectionMm then 15
              else if \<bar>deflectionMm\<bar> > 15 then 15
              else if \<bar>deflectionMm\<bar> < 0.01 then deflectionMm
              else Math_max 0.01 \<bar>deflectionMm\<bar>)"

section \<open>Strings: \<open>split\<close>, \<open>slice\<close> and \<open>parseInt\<close>\<close>

text \<open>\<open>s.split(c)\<close> for a one-character separator.\<close>

fun split :: "char \<Rightarrow> string \<Rightarrow> string list" where
  "split c [] = [[]]"
| "split c (a # as) =
     (if a = c then [] # split c as
      else case split c as of w # ws \<Rightarrow> (a # w) # ws | [] \<Rightarrow> [[a]])"

definition isWhiteSpace :: "char \<Rightarrow> bool" where
  "isWhiteSpace c = (c \<in> set [CHR '' '', CHR 0x09, CHR 0x0A, CHR 0x0B, CHR 0x0C, CHR 0x0D])"

definition digitValue :: "char \<Rightarrow> nat option" where
  "digitValue c =
     (let n = (of_char c :: nat) in
      if 48 \<le> n \<and> n \<le> 57 then Some (n - 48)
      else if 97 \<le> n \<and> n \<le> 122 then Some (n - 87)
      else if 65 \<le> n \<and> n \<le> 90 then Some (n - 55)
      else None)"

text \<open>The longest prefix of digits below the radix, read as a natural number.\<close>

fun readDigits :: "nat \<Rightarrow> string \<Rightarrow> nat option \<Rightarrow> nat option" where
  "readDigits radix [] acc = acc"
| "readDigits radix (c # cs) acc =
     (case digitValue c of
        Some d \<Rightarrow>
          (if d < radix
           then readDigits radix cs (Some ((case acc of None \<Rightarrow> 0 | Some a \<Rightarrow> a) * radix + d))
           else acc)
      | None \<Rightarrow> acc)"

text \<open>\<open>parseInt(s)\<close> without a radix; \<open>None\<close> as argument is \<open>undefined\<close>.\<close>

definition parseInt :: "string option \<Rightarrow> number" where
  "parseInt so =
     (case so of
        None \<Rightarrow> NaN
      | Some s0 \<Rightarrow>
          let s1 = dropWhile isWhiteSpace s0;
              negative = (s1 \<noteq> [] \<and> hd s1 = CHR ''-'');
              s2 = (if s1 \<noteq> [] \<and> (hd s1 = CHR ''-'' \<or> hd s1 = CHR ''+'') then tl s1 else s1);
              hex = (take 2 s2 = ''0x'' \<or> take 2 s2 = ''0X'');
              r = (if hex then readDigits 16 (drop 2 s2) None else readDigits 10 s2 None)
          in case r of
               None \<Rightarrow> NaN
             | Some n \<Rightarrow> (if negative then Fin (- real n) else Fin (real n)))"

text \<open>\<open>xs[i]\<close> on an array of strings: \<open>undefined\<close> out of range.\<close>

definition nth_opt :: "'a list \<Rightarrow> nat \<Rightarrow> 'a option" where
  "nth_opt xs i = (if i < length xs then Some (xs ! i) else None)"

section \<open>The flight simulation (calculateFlightPath)\<close>

subsection \<open>Data\<close>

record config =
  enhancedAttitudeControl :: "bool option"
  windAngleLimitation :: "bool option"

definition ENHANCED_ATTITUDE_CONTROL :: bool where
  "ENHANCED_ATTITUDE_CONTROL = False"

definition WIND_ANGLE_LIMITATION :: bool where
  "WIND_ANGLE_LIMITATION = False"

text \<open>An entry of \<open>keyPoints\<close>.\<close>

record keyPoint =
  kp_time :: number
  kp_height :: number
  kp_speed :: number

record keyPoints =
  kp_thrustEnd :: keyPoint
  kp_prec_MaxHeight :: keyPoint
  kp_maxHeight :: keyPoint
  kp_parachuteEjection :: keyPoint
  kp_parachuteActive :: keyPoint

text \<open>An entry of \<open>data\<close>; the field \<open>f\<close> of the source is \<open>d_f\<close>.\<close>

record sample =
  d_time :: number
  d_physicsX :: number
  d_physicsY :: number
  d_height :: number
  d_vx :: number
  d_vy :: number
  d_ax :: number
  d_ay :: number
  d_speedMagnitude :: number
  d_accelerationMagnitude :: number
  d_angularVelocity :: number
  d_angularAcceleration :: number
  d_isParachuteEjected :: bool
  d_isParachuteActive :: bool
  d_parachuteDeploymentProgress :: number
  d_omega :: number
  d_omegaDegrees :: number
  d_torque :: number
  d_angleChangePerDt2 :: number
  d_horizontalDistance :: number
  d_finDeflection :: number
  d_angleDeviationDegrees :: number
  d_effectiveWindSpeed :: number
  d_isThrustActive :: bool
  d_absoluteAngleDegrees :: number
  d_isAbsoluteAngleOK :: bool
  d_angleChangeLimit :: number
  d_absoluteAngleLimit :: number

text \<open>
  What \<open>calculateFlightPath\<close> computes before its loop and never changes afterwards
  (lines 866 to 955).
\<close>

record flightConstants =
  rocket :: rocketParams
  angle :: number
  windSpeed :: number
  windProfile :: windProfileKey
  useEnhancedAttitudeControl :: bool
  useWindAngleLimitation :: bool
  mass_kg :: number
  thrustData :: "number list"
  bodyDiameter :: number
  bodyLength :: number
  finwidth_m :: number
  finThickness_m :: number
  momentOfInertia :: number
  noseCd :: number
  thrustEndTime :: number
  parachuteEjectionTime :: number
  parachuteActiveTime :: number
  parachuteDiameter :: number
  areas :: projectedAreas
  cpData :: pressureCenter
  acData :: number
  stabilityCpData :: number
  volumeData :: volumes
  margins :: staticMargins

text \<open>
  The variables the loop changes. The time is only ever 0 or a sum of steps \<open>dt\<close>, and
  is a real. Variables that are written and never read (\<open>angleChanges\<close>,
  \<open>avgThrustForTorque\<close>, \<open>thrustSamplesCount\<close>) are left out; \<open>x\<close> and \<open>y\<close> are
  \<open>x_pos\<close> and \<open>y_pos\<close>.
\<close>

record state =
  time :: real
  x_pos :: number
  y_pos :: number
  vx :: number
  vy :: number
  omega :: number
  prevOmega :: number
  angularVelocity :: number
  angularAcceleration :: number
  data :: "sample list"
  isParachuteEjected :: bool
  isParachuteActive :: bool
  parachuteDeploymentProgress :: number
  maxAngleChangePerDt2 :: number
  isAngleStableOK :: bool
  isAbsoluteAngleOK :: bool
  thrustEndFlag :: bool
  angleChangeBuffer :: "number list"
  maxAbsoluteAngle :: number
  stepCounter :: nat
  totalTorque :: number
  angleChangePerDt2 :: number
  prec_MaxHeight :: number
  maxHeight :: number
  maxSpeed :: number
  maxDistance :: number
  maxFinDeflection :: number
  keyPoints :: keyPoints
  isTorqueStableOK :: bool

definition dt :: real where
  "dt = 0.02"

definition MAX_TIME :: real where
  "MAX_TIME = 20"

text \<open>The gravitational acceleration \<open>g\<close>.\<close>

definition g_acc :: number where
  "g_acc = 9.81"

definition MAX_ANGLE_CHANGE_PER_DT2 :: number where
  "MAX_ANGLE_CHANGE_PER_DT2 = 45.0"

definition MAX_ABSOLUTE_ANGLE :: number where
  "MAX_ABSOLUTE_ANGLE = 112.5"

definition TORQUE_THRESHOLD :: number where
  "TORQUE_THRESHOLD = 10.0"

definition parachuteDeployTime :: number where
  "parachuteDeployTime = 1.0"

subsection \<open>Before the loop\<close>

text \<open>The moment of inertia (lines 905 to 930).\<close>

definition calculateMomentOfInertia :: "rocketParams \<Rightarrow> number" where
  "calculateMomentOfInertia rocketParams =
     (let finCount = js_or (finCount rocketParams) 3;
          mass_kg = gToKg (weight rocketParams);
          bodyDiameter = mmToM (bodyWidth rocketParams);
          bodyRadius = bodyDiameter / 2;
          bodyLength = mmToM (bodyHeight rocketParams + noseHeight rocketParams);
          finBaseWidth_m = mmToM (finBaseWidth rocketParams);
          finHeight_m = mmToM (finHeight rocketParams);
          finTipWidth_m = mmToM (finTipWidth rocketParams);
          finSweepLength_m = mmToM (finSweepLength rocketParams);
          finThickness_m = mmToM (finThickness rocketParams);
          finCp_m = mmToM (finCp rocketParams);
          finMaterial = FIN_MATERIALS light_veneer;
          finVol = (finTipWidth_m + finBaseWidth_m) * finHeight_m * 0.5 * finThickness_m;
          finMass = finVol * mat_MD finMaterial;
          fin_momentOfInertia =
            (if finSweepLength_m + finTipWidth_m > finBaseWidth_m
             then Math_pow ((finBaseWidth_m + (finSweepLength_m + finTipWidth_m - finBaseWidth_m)) / 2) 2
                    * finMass / 3
             else Math_pow (finBaseWidth_m / 2) 2 * finMass / 3)
      in if js_eq finCount 3 then
           let cg_to_sideFincg = Math_pow
                 (Math_pow (((finTipWidth_m + (2 * finBaseWidth_m))
                               / (3 * (finTipWidth_m + finBaseWidth_m)))
                             * (finHeight_m * 1.732 / 2)) 2
                  + Math_pow finCp_m 2) 0.5
           in 0.25 * (mass_kg - finMass * 3) * bodyRadius * bodyRadius
              + 0.0833 * (mass_kg - finMass * 3) * bodyLength * bodyLength
              + ((fin_momentOfInertia + finMass * Math_pow finCp_m 2)
                 + (fin_momentOfInertia + finMass * Math_pow cg_to_sideFincg 2) * 2)
         else
           let cg_to_sideFincg = Math_pow
                 (Math_pow (((finTipWidth_m + (2 * finBaseWidth_m))
                               / (3 * (finTipWidth_m + finBaseWidth_m)))
                             * finHeight_m) 2
                  + Math_pow finCp_m 2) 0.5
           in 0.25 * (mass_kg - finMass * 3) * bodyRadius * bodyRadius
              + 0.0833 * (mass_kg - finMass * 3) * bodyLength * bodyLength
              + ((fin_momentOfInertia + finMass * Math_pow finCp_m 2) * 2
                 + (fin_momentOfInertia + finMass * Math_pow cg_to_sideFincg 2) * 2))"

text \<open>
  The ejection delay, read from the motor designation:
  \<open>parseInt(rocketParams.selectedMotor.split('-')[1])\<close>.
\<close>

definition parachuteDelay :: "motor \<Rightarrow> number" where
  "parachuteDelay m = parseInt (nth_opt (split CHR ''-'' (motorName m)) 1)"

text \<open>
  The constants of a run. The field \<open>rocket\<close> is the parameter object after the
  assignment \<open>rocketParams.finCp = centerOfPressure.finCp\<close> of line 949.
\<close>

definition prepare ::
  "rocketParams \<Rightarrow> number \<Rightarrow> number \<Rightarrow> windProfileKey \<Rightarrow> config option \<Rightarrow> flightConstants" where
  "prepare =
     (\<lambda>rocketParams angle windSpeed windProfile config.
        let thrustData = MOTOR_THRUST_DATA (selectedMotor rocketParams);
            thrustEndTime = Fin (real (length thrustData) * dt);
            parachuteEjectionTime = thrustEndTime + parachuteDelay (selectedMotor rocketParams);
            centerOfPressure = calculateCenterOfPressure rocketParams
        in \<lparr>rocket = rocketParams\<lparr>finCp := cp_finCp centerOfPressure\<rparr>,
            angle = angle,
            windSpeed = windSpeed,
            windProfile = windProfile,
            useEnhancedAttitudeControl =
              (case config of
                 None \<Rightarrow> ENHANCED_ATTITUDE_CONTROL
               | Some c \<Rightarrow>
                   (case enhancedAttitudeControl c of
                      None \<Rightarrow> ENHANCED_ATTITUDE_CONTROL | Some b \<Rightarrow> b)),
            useWindAngleLimitation =
              (case config of
                 None \<Rightarrow> WIND_ANGLE_LIMITATION
               | Some c \<Rightarrow>
                   (case windAngleLimitation c of None \<Rightarrow> WIND_ANGLE_LIMITATION | Some b \<Rightarrow> b)),
            mass_kg = gToKg (weight rocketParams),
            thrustData = thrustData,
            bodyDiameter = mmToM (bodyWidth rocketParams),
            bodyLength = mmToM (bodyHeight rocketParams + noseHeight rocketParams),
            finwidth_m = mmToM (finHeight rocketParams),
            finThickness_m = mmToM (finThickness rocketParams),
            momentOfInertia = calculateMomentOfInertia rocketParams,
            noseCd = NOSE_SHAPES_cd (noseShape rocketParams),
            thrustEndTime = thrustEndTime,
            parachuteEjectionTime = parachuteEjectionTime,
            parachuteActiveTime = parachuteEjectionTime + parachuteDeployTime,
            parachuteDiameter =
              mmToM (parseInt (Some (drop 1 (parachuteName (selectedParachute rocketParams))))),
            areas = calculateProjectedArea rocketParams,
            cpData = centerOfPressure,
            acData = calculateAerodynamicCenter rocketParams,
            stabilityCpData = calculateStabilityCenterOfPressure rocketParams,
            volumeData = calculateVolume rocketParams,
            margins = calculateStaticMargin rocketParams\<rparr>)"

definition initialKeyPoints :: keyPoints where
  "initialKeyPoints =
     (let z = \<lparr>kp_time = 0, kp_height = 0, kp_speed = 0\<rparr>
      in \<lparr>kp_thrustEnd = z, kp_prec_MaxHeight = z, kp_maxHeight = z,
           kp_parachuteEjection = z, kp_parachuteActive = z\<rparr>)"

text \<open>The variables as initialised in lines 879 to 1012.\<close>

definition initialState :: "flightConstants \<Rightarrow> state" where
  "initialState S =
     \<lparr>time = 0, x_pos = 0, y_pos = 0, vx = 0, vy = 0,
      omega = angle S * Fin pi / 180,
      prevOmega = angle S * Fin pi / 180,
      angularVelocity = 0, angularAcceleration = 0, data = [],
      isParachuteEjected = False, isParachuteActive = False, parachuteDeploymentProgress = 0,
      maxAngleChangePerDt2 = 0, isAngleStableOK = True, isAbsoluteAngleOK = True,
      thrustEndFlag = False, angleChangeBuffer = [], maxAbsoluteAngle = 0,
      stepCounter = 0, totalTorque = 0, angleChangePerDt2 = 0,
      prec_MaxHeight = 0, maxHeight = 0, maxSpeed = 0, maxDistance = 0, maxFinDeflection = 0,
      keyPoints = initialKeyPoints, isTorqueStableOK = True\<rparr>"

subsection \<open>One pass through the loop body\<close>

text \<open>
  The values a pass derives from the variables as they are when the pass begins
  (lines 1043 to 1070). \<open>prev_vx\<close> and \<open>prev_vy\<close> are \<open>vx\<close> and \<open>vy\<close> of that state.
  In the definitions below \<open>s0\<close> is always the state at the beginning of the pass.
\<close>

definition distanceFromStart :: "state \<Rightarrow> number" where
  "distanceFromStart s0 = Math_sqrt (x_pos s0 * x_pos s0 + y_pos s0 * y_pos s0)"

definition onLaunchRail :: "state \<Rightarrow> bool" where
  "onLaunchRail s0 = (distanceFromStart s0 < launchRailLength)"

definition velocity :: "state \<Rightarrow> number" where
  "velocity s0 = Math_sqrt (vx s0 * vx s0 + vy s0 * vy s0)"

definition effectiveWindSpeed :: "flightConstants \<Rightarrow> state \<Rightarrow> number" where
  "effectiveWindSpeed S s0 = calculateWindSpeedAtHeight (windSpeed S) (y_pos s0) (windProfile S)"

definition isCurrentlyZeroWind :: "flightConstants \<Rightarrow> state \<Rightarrow> bool" where
  "isCurrentlyZeroWind S s0 = (\<bar>effectiveWindSpeed S s0\<bar> < 0.1)"

definition specialAngle :: "flightConstants \<Rightarrow> bool" where
  "specialAngle S = (js_eq \<bar>angle S\<bar> 4 \<or> js_eq \<bar>angle S\<bar> 18)"

definition adjustedOmega :: "flightConstants \<Rightarrow> state \<Rightarrow> number" where
  "adjustedOmega S s0 =
     (let angleAdjustment = (if specialAngle S then 0.01 else 0)
      in omega s0 + angleAdjustment * (if angle S < 0 then - 1 else 1))"

definition normalizedAbsoluteAngle :: "flightConstants \<Rightarrow> state \<Rightarrow> number" where
  "normalizedAbsoluteAngle S s0 =
     (let absoluteOmegaDegrees = js_rem (adjustedOmega S s0 * 180 / Fin pi) 360
      in if absoluteOmegaDegrees > 180 then absoluteOmegaDegrees - 360 else absoluteOmegaDegrees)"

text \<open>The parachute state (lines 1022 to 1041).\<close>

definition updateParachute :: "flightConstants \<Rightarrow> state \<Rightarrow> state" where
  "updateParachute S s =
     (let s1 =
            (if \<not> isParachuteEjected s \<and> Fin (time s) \<ge> parachuteEjectionTime S
             then s\<lparr>isParachuteEjected := True,
                    keyPoints := (keyPoints s)\<lparr>kp_parachuteEjection :=
                      \<lparr>kp_time = Fin (time s), kp_height = y_pos s, kp_speed = vy s\<rparr>\<rparr>\<rparr>
             else s);
          s2 =
            (if isParachuteEjected s1 \<and> \<not> isParachuteActive s1
             then s1\<lparr>parachuteDeploymentProgress :=
                    Math_min 1 ((Fin (time s1) - parachuteEjectionTime S) / parachuteDeployTime)\<rparr>
             else s1)
      in if \<not> isParachuteActive s2 \<and> Fin (time s2) \<ge> parachuteActiveTime S
         then s2\<lparr>isParachuteActive := True,
                 parachuteDeploymentProgress := 1.0,
                 vx := vx s2 * 0.1,
                 vy := vy s2 * 0.1,
                 keyPoints := (keyPoints s2)\<lparr>kp_parachuteActive :=
                   \<lparr>kp_time = Fin (time s2), kp_height = y_pos s2, kp_speed = vy s2 * 0.1\<rparr>\<rparr>\<rparr>
         else s2)"

text \<open>The absolute attitude check (lines 1073 to 1085).\<close>

definition checkAbsoluteAngle :: "flightConstants \<Rightarrow> state \<Rightarrow> state \<Rightarrow> state" where
  "checkAbsoluteAngle S s0 s =
     (if \<not> onLaunchRail s0 \<and> \<not> isParachuteEjected s then
        let n = normalizedAbsoluteAngle S s0;
            s1 = (if \<bar>n\<bar> > \<bar>maxAbsoluteAngle s\<bar> then s\<lparr>maxAbsoluteAngle := n\<rparr> else s)
        in if \<bar>n\<bar> > MAX_ABSOLUTE_ANGLE then s1\<lparr>isAbsoluteAngleOK := False\<rparr> else s1
      else s)"

text \<open>The fin deflection (lines 1088 to 1105); the material is always light veneer.\<close>

definition finDeflection :: "flightConstants \<Rightarrow> state \<Rightarrow> number" where
  "finDeflection S s0 =
     (if velocity s0 > 5.0
      then calculateFinDeflection (velocity s0) (FIN_MATERIALS light_veneer)
             \<lparr>fp_finHeight = finHeight (rocket S), fp_finBaseWidth = finBaseWidth (rocket S),
              fp_finTipWidth = finTipWidth (rocket S), fp_finThickness = finThickness (rocket S),
              fp_finSweepLength = finSweepLength (rocket S)\<rparr>
             (angleChangePerDt2 s0)
      else 0)"

definition updateMaxFinDeflection :: "flightConstants \<Rightarrow> state \<Rightarrow> state \<Rightarrow> state" where
  "updateMaxFinDeflection S s0 s =
     (if velocity s0 > 5.0 \<and> finDeflection S s0 > maxFinDeflection s
      then s\<lparr>maxFinDeflection := finDeflection S s0\<rparr> else s)"

text \<open>
  The four moments as both call sites compute them (lines 1243 to 1255 and 1311 to 1323):
  all zero below the zero-wind threshold. The fin moment receives eight arguments, the
  sixth being the parameter object.
\<close>

definition flightAngle :: "state \<Rightarrow> number" where
  "flightAngle s0 = Math_atan2 (vx s0) (vy s0)"

definition moments :: "flightConstants \<Rightarrow> state \<Rightarrow> number \<times> number \<times> number \<times> number" where
  "moments S s0 =
     (if isCurrentlyZeroWind S s0 then (0, 0, 0, 0)
      else
        (calculateLiftMoment (velocity s0) (adjustedOmega S s0) (flightAngle s0) (rocket S)
           (sideArea (areas S)) (acData S) (centerOfGravity (rocket S)),
         calculateDragMoment (velocity s0) (adjustedOmega S s0) (flightAngle s0) (rocket S)
           (sideArea (areas S)) (acData S) (centerOfGravity (rocket S)),
         calculateWindMoment (noseHeight (rocket S)) (bodyDiameter S) (bodyHeight (rocket S))
           (effectiveWindSpeed S s0) (adjustedOmega S s0) (totalFinArea (areas S))
           (centerOfPressure (cpData S)) (centerOfGravity (rocket S)),
         calculateFinMoment (Num (finHeight (rocket S))) (Num (finBaseWidth (rocket S)))
           (Num (finCount (rocket S))) (Num (velocity s0)) (Num (flightAngle s0)) Obj
           (Num (finCp (rocket S))) (Num (centerOfGravity (rocket S)))
           Undefined Undefined Undefined Undefined Undefined Undefined))"

text \<open>The sum of the four moments, \<open>rawTorque\<close>.\<close>

definition rawTorque :: "flightConstants \<Rightarrow> state \<Rightarrow> number" where
  "rawTorque S s0 = (case moments S s0 of (mL, mD, mW, mF) \<Rightarrow> mL + mD + mW + mF)"

text \<open>
  The torque of free flight (lines 1257 to 1275 and 1325 to 1339): 0 when a moment is
  not finite, \<open>Abnormal\<close> when the sum exceeds the threshold (the \<open>break\<close>), the sum
  clamped to [-1, 1] otherwise.
\<close>

datatype torqueResult = Torque number | Abnormal

definition aeroTorque :: "flightConstants \<Rightarrow> state \<Rightarrow> torqueResult" where
  "aeroTorque S s0 =
     (case moments S s0 of
        (mL, mD, mW, mF) \<Rightarrow>
          if \<not> isFinite mL \<or> isNaN mL \<or> \<not> isFinite mD \<or> isNaN mD
             \<or> \<not> isFinite mW \<or> isNaN mW \<or> \<not> isFinite mF \<or> isNaN mF
          then Torque 0
          else if \<bar>rawTorque S s0\<bar> > TORQUE_THRESHOLD then Abnormal
          else Torque (Math_max (- 1.0) (Math_min 1.0 (rawTorque S s0))))"

text \<open>The accelerations from the forces, with the guard on the mass.\<close>

definition accelerations :: "flightConstants \<Rightarrow> number \<Rightarrow> number \<Rightarrow> number \<times> number" where
  "accelerations S Fx Fy =
     (let MIN_MASS = 0.000001
      in if \<bar>mass_kg S\<bar> < MIN_MASS then (0, - g_acc) else (Fx / mass_kg S, Fy / mass_kg S))"

text \<open>The result of the force computation: the accelerations, the torque and the state,
  or the state at the \<open>break\<close>.\<close>

datatype forces = Forces number number number state | TorqueAbort state

text \<open>Parachute fully deployed (lines 1108 to 1147).\<close>

definition parachuteActiveForces :: "flightConstants \<Rightarrow> state \<Rightarrow> state \<Rightarrow> forces" where
  "parachuteActiveForces S s0 s =
     (let Cd = 0.775;
          rho = 1.225;
          Area = Fin pi * Math_pow (parachuteDiameter S / 2) 2;
          Dp = 0.5 * Cd * rho * velocity s0 * velocity s0 * Area;
          Fx0 = (if velocity s0 > 0.001 then - Dp * (vx s0 / velocity s0) else 0);
          Fy0 = (if velocity s0 > 0.001 then - Dp * (vy s0 / velocity s0) else 0);
          Cdw = 0.25;
          A = parachuteDiameter S * parachuteDiameter S * 0.785;
          Dw = 0.5 * Cdw * rho * \<bar>effectiveWindSpeed S s0\<bar> * effectiveWindSpeed S s0 * A;
          Fx = Fx0 - Dw;
          Fy = Fy0 - mass_kg S * g_acc;
          initialOmega = angle S * Fin pi / 180;
          torque = (if \<bar>adjustedOmega S s0 - initialOmega\<bar> > 0.01
                    then (initialOmega - adjustedOmega S s0) * 0.001 else 0)
      in case accelerations S Fx Fy of (ax, ay) \<Rightarrow> Forces ax ay torque s)"

text \<open>Parachute ejected and not yet deployed (lines 1148 to 1181).\<close>

definition parachuteDeployingForces :: "flightConstants \<Rightarrow> state \<Rightarrow> state \<Rightarrow> forces" where
  "parachuteDeployingForces S s0 s =
     (let dragCoefficient = 0.1;
          Fx0 = (if velocity s0 > 0.001 then - dragCoefficient * vx s0 else 0);
          Fy = (if velocity s0 > 0.001 then - mass_kg S * g_acc - dragCoefficient * vy s0
                else - mass_kg S * g_acc);
          rho = 1.225;
          Cdw = 0.25;
          A = bodyDiameter S * bodyLength S * 0.5;
          Dw = 0.5 * Cdw * rho * \<bar>effectiveWindSpeed S s0\<bar> * effectiveWindSpeed S s0 * A;
          Fx = Fx0 - Dw * 0.5;
          initialOmega = angle S * Fin pi / 180;
          torque = (initialOmega - adjustedOmega S s0) * 0.0005
      in case accelerations S Fx Fy of (ax, ay) \<Rightarrow> Forces ax ay torque s)"

text \<open>\<open>thrustData[thrustIndex]\<close>; an index outside the array gives \<open>undefined\<close>, which
  is NaN in the arithmetic that follows.\<close>

definition thrustAt :: "flightConstants \<Rightarrow> state \<Rightarrow> number" where
  "thrustAt S s0 =
     (let thrustIndex = min \<lfloor>time s0 / dt\<rfloor> (int (length (thrustData S)) - 1)
      in if 0 \<le> thrustIndex \<and> thrustIndex < int (length (thrustData S))
         then thrustData S ! nat thrustIndex else NaN)"

text \<open>Flight without parachute (lines 1182 to 1367): on the rail, powered, coasting.\<close>

definition flightForces :: "flightConstants \<Rightarrow> state \<Rightarrow> state \<Rightarrow> forces" where
  "flightForces S s0 s =
     (let bodydia_noseleng_ratio = (noseHeight (rocket S)) * 0.001 / bodyDiameter S;
          alfa = (0.9 - noseCd S) / 9;
          Cd = alfa * Math_pow bodydia_noseleng_ratio 2 - 6 * alfa * bodydia_noseleng_ratio
                 + (noseCd S + (9 * alfa));
          rho = 1.225;
          Area = Fin pi * Math_pow (bodyDiameter S / 2) 2 + finwidth_m S * finThickness_m S * 4;
          Dt = 0.5 * Cd * rho * velocity s0 * velocity s0 * Area;
          Cdw = 0.25;
          A = bodyDiameter S * bodyLength S;
          Dw = 0.5 * Cdw * rho * \<bar>effectiveWindSpeed S s0\<bar> * effectiveWindSpeed S s0 * A;
          w = adjustedOmega S s0
      in if Fin (time s0) < thrustEndTime S then
           let thrust = thrustAt S s0 in
           if onLaunchRail s0 then
             let Fy = (if js_eq (angle S) 0 then thrust - mass_kg S * g_acc
                       else thrust * Math_cos w - mass_kg S * g_acc);
                 Fx = (if js_eq (angle S) 0 then - Dw else thrust * Math_sin w - Dw)
             in case accelerations S Fx Fy of (ax, ay) \<Rightarrow> Forces ax ay 0 s
           else
             let Fx = (if velocity s0 > 0.001
                       then thrust * Math_sin w - Dt * Math_sin (flightAngle s0) - Dw
                       else thrust * Math_sin w - Dw);
                 Fy = (if velocity s0 > 0.001
                       then thrust * Math_cos w - mass_kg S * g_acc - Dt * Math_cos (flightAngle s0)
                       else thrust * Math_cos w - mass_kg S * g_acc)
             in if velocity s0 > 1.0 then
                  (case aeroTorque S s0 of
                     Abnormal \<Rightarrow> TorqueAbort s
                   | Torque torque \<Rightarrow>
                       (case accelerations S Fx Fy of (ax, ay) \<Rightarrow> Forces ax ay torque s))
                else (case accelerations S Fx Fy of (ax, ay) \<Rightarrow> Forces ax ay 0 s)
         else
           let s1 = (if \<not> thrustEndFlag s
                     then s\<lparr>thrustEndFlag := True,
                            keyPoints := (keyPoints s)\<lparr>kp_thrustEnd :=
                              \<lparr>kp_time = Fin (time s), kp_height = y_pos s, kp_speed = vy s\<rparr>\<rparr>\<rparr>
                     else s);
               Fx = (if velocity s0 > 0.001 then - Dt * Math_sin (flightAngle s0) + Dw else Dw);
               Fy = (if velocity s0 > 0.001
                     then - mass_kg S * g_acc - Dt * Math_cos (flightAngle s0)
                     else - mass_kg S * g_acc)
           in if velocity s0 > 0.5 then
                (case aeroTorque S s0 of
                   Abnormal \<Rightarrow> TorqueAbort s1
                 | Torque torque0 \<Rightarrow>
                     let torque = (if specialAngle S then torque0 * 1.2 else torque0)
                     in case accelerations S Fx Fy of (ax, ay) \<Rightarrow> Forces ax ay torque s1)
              else (case accelerations S Fx Fy of (ax, ay) \<Rightarrow> Forces ax ay 0 s1))"

definition computeForces :: "flightConstants \<Rightarrow> state \<Rightarrow> state \<Rightarrow> forces" where
  "computeForces S s0 s =
     (if isParachuteActive s then parachuteActiveForces S s0 s
      else if isParachuteEjected s \<and> \<not> isParachuteActive s then parachuteDeployingForces S s0 s
      else flightForces S s0 s)"

text \<open>
  The torque is accumulated, and every \<open>ANGLE_STEPS_PER_UPDATE\<close> passes the angular
  velocity is updated from its average (lines 1370 to 1447). Nothing in the \<open>try\<close> block
  throws, so the \<open>catch\<close> branch is not modelled.
\<close>

definition accumulateTorque :: "flightConstants \<Rightarrow> number \<Rightarrow> state \<Rightarrow> state" where
  "accumulateTorque S torque s =
     (let totalTorque1 = totalTorque s + torque;
          stepCounter1 = stepCounter s + 1
      in if stepCounter1 \<ge> ANGLE_STEPS_PER_UPDATE then
           let dt2 = ANGLE_RESPONSE_DT;
               avgTorque = totalTorque1 / Fin (real stepCounter1);
               safeAvgTorque = (if isFinite avgTorque \<and> \<not> isNaN avgTorque then avgTorque else 0);
               effectiveTorque = safeAvgTorque;
               MIN_MOMENT_OF_INERTIA = 0.000001;
               angularAcceleration1 =
                 (if \<bar>momentOfInertia S\<bar> < MIN_MOMENT_OF_INERTIA then 0
                  else effectiveTorque / momentOfInertia S);
               angularVelocity1 =
                 Math_max (- 3) (Math_min 3 (angularVelocity s + angularAcceleration1 * dt2));
               angleChangePerDt2_1 = angularVelocity1 * dt2;
               angleChangePerDt2Degrees = angleChangePerDt2_1 * 180 / Fin pi;
               s1 = s\<lparr>angularAcceleration := angularAcceleration1,
                      angularVelocity := angularVelocity1,
                      angleChangePerDt2 := angleChangePerDt2_1,
                      stepCounter := 0, totalTorque := 0\<rparr>
           in if \<not> isParachuteEjected s then
                let s2 = (if \<bar>angleChangePerDt2Degrees\<bar> > \<bar>maxAngleChangePerDt2 s1\<bar>
                          then s1\<lparr>maxAngleChangePerDt2 := angleChangePerDt2Degrees\<rparr> else s1)
                in if \<bar>angleChangePerDt2Degrees\<bar> > MAX_ANGLE_CHANGE_PER_DT2
                   then s2\<lparr>isAngleStableOK := False\<rparr> else s2
              else s1
         else s\<lparr>totalTorque := totalTorque1, stepCounter := stepCounter1\<rparr>)"

text \<open>\<open>angleChangeBuffer.reduce((sum, change) => sum + change, 0)\<close>.\<close>

definition sumBuffer :: "number list \<Rightarrow> number" where
  "sumBuffer xs = foldl (+) 0 xs"

text \<open>
  The attitude update that is always applied (lines 1451 to 1526;
  \<open>PHYSICAL_ATTITUDE_CONTROL\<close> is the constant \<open>true\<close>).
\<close>

definition physicalAttitude :: "flightConstants \<Rightarrow> state \<Rightarrow> state \<Rightarrow> state" where
  "physicalAttitude S s0 s =
     (let physicsBasedAngleChange = angleChangePerDt2 s / Fin (real ANGLE_STEPS_PER_UPDATE);
          omega1 =
            (if isCurrentlyZeroWind S s0 \<and> \<not> onLaunchRail s0 then
               let initialOmegaRad = angle S * Fin pi / 180;
                   returnRate = 0.005
               in if \<bar>omega s - initialOmegaRad\<bar> < 0.0001 then initialOmegaRad
                  else omega s * (1 - returnRate) + initialOmegaRad * returnRate
             else omega s + physicsBasedAngleChange);
          prevOmegaDegrees = js_rem (prevOmega s * 180 / Fin pi) 360;
          currentOmegaDegrees = js_rem (omega1 * 180 / Fin pi) 360;
          deltaOmega0 = currentOmegaDegrees - prevOmegaDegrees;
          deltaOmega1 = (if deltaOmega0 > 180 then deltaOmega0 - 360 else deltaOmega0);
          deltaOmega = (if deltaOmega1 < - 180 then deltaOmega1 + 360 else deltaOmega1);
          buffer0 = angleChangeBuffer s @ [deltaOmega];
          framesPerDt2 = ANGLE_RESPONSE_DT / Fin dt;
          buffer1 = (if Fin (real (length buffer0)) > framesPerDt2 then tl buffer0 else buffer0);
          totalAngleChange = sumBuffer buffer1;
          s1 = s\<lparr>omega := omega1, angleChangeBuffer := buffer1, prevOmega := omega1\<rparr>
      in if \<not> isParachuteEjected s \<and> \<not> onLaunchRail s0 then
           let s2 = (if \<bar>totalAngleChange\<bar> > \<bar>maxAngleChangePerDt2 s1\<bar>
                     then s1\<lparr>maxAngleChangePerDt2 := totalAngleChange\<rparr> else s1)
           in if \<bar>totalAngleChange\<bar> > MAX_ANGLE_CHANGE_PER_DT2
              then s2\<lparr>isAngleStableOK := False\<rparr> else s2
         else s1)"

text \<open>The optional weathercocking controller (lines 1529 to 1628).\<close>

definition limitChange :: "number \<Rightarrow> number \<Rightarrow> number" where
  "limitChange w newOmega =
     (let maxChange = 0.2
      in if \<bar>newOmega - w\<bar> > maxChange then w + Math_sign (newOmega - w) * maxChange
         else newOmega)"

definition enhancedAttitude :: "flightConstants \<Rightarrow> state \<Rightarrow> state \<Rightarrow> state" where
  "enhancedAttitude S s0 s =
     (if useEnhancedAttitudeControl S \<and> \<not> isCurrentlyZeroWind S s0
         \<and> \<not> onLaunchRail s0 \<and> \<not> isParachuteEjected s then
        let flightAngle1 = Math_atan2 (vx s) (vy s);
            wind = effectiveWindSpeed S s0
        in if thrustEndFlag s then
             let targetOmega = flightAngle1;
                 adjustRate = Math_min 0.05 (0.002 * velocity s0);
                 newOmega = omega s * (1.0 - adjustRate) + targetOmega * adjustRate
             in s\<lparr>omega := limitChange (omega s) newOmega\<rparr>
           else
             let windAngle = (if wind > 0 then 0 else Fin pi);
                 perpendicularToWind1 = windAngle + Fin pi / 2;
                 perpendicularToWind2 = windAngle - Fin pi / 2;
                 isMovingUpwind = ((wind < 0 \<and> vx s > 0) \<or> (wind > 0 \<and> vx s < 0));
                 targetOmega =
                   (if \<bar>wind\<bar> < 0.5 then flightAngle1
                    else if isMovingUpwind \<and> useWindAngleLimitation S then
                      (if wind < 0 then Math_max flightAngle1 perpendicularToWind2
                       else Math_min flightAngle1 perpendicularToWind1)
                    else flightAngle1);
                 adjustRate = Math_min 0.05 (0.002 * velocity s0);
                 windFactor = Math_min 0.8 (\<bar>wind\<bar> / 6.0);
                 finalAdjustRate = adjustRate * (1.0 + windFactor);
                 newOmega = omega s * (1.0 - finalAdjustRate) + targetOmega * finalAdjustRate
             in s\<lparr>omega := limitChange (omega s) newOmega\<rparr>
      else s)"

text \<open>
  Integration of velocity and position, the running maxima, the recorded sample and the
  advance of the time (lines 1631 to 1723).
\<close>

definition integrate ::
  "flightConstants \<Rightarrow> state \<Rightarrow> number \<Rightarrow> number \<Rightarrow> number \<Rightarrow> state \<Rightarrow> state" where
  "integrate S s0 ax ay torque s =
     (let vx1 = vx s + ax * Fin dt;
          vy1 = vy s + ay * Fin dt;
          MAX_SPEED = 100;
          currentSpeed = Math_sqrt (vx1 * vx1 + vy1 * vy1);
          factor = MAX_SPEED / currentSpeed;
          vx2 = (if currentSpeed > MAX_SPEED then vx1 * factor else vx1);
          vy2 = (if currentSpeed > MAX_SPEED then vy1 * factor else vy1);
          MAX_ANGULAR_VELOCITY = 5;
          angularVelocity1 =
            Math_max (- MAX_ANGULAR_VELOCITY) (Math_min MAX_ANGULAR_VELOCITY (angularVelocity s));
          railDistance =
            Math_min (distanceFromStart s0 + velocity s0 * Fin dt) launchRailLength;
          x1 = (if onLaunchRail s0
                then (if js_eq (angle S) 0 then 0 else railDistance * Math_sin (omega s))
                else x_pos s + vx2 * Fin dt);
          y1 = (if onLaunchRail s0
                then (if js_eq (angle S) 0 then y_pos s + vy2 * Fin dt
                      else railDistance * Math_cos (omega s))
                else y_pos s + vy2 * Fin dt);
          now = Fin (time s);
          kp1 = (if y1 > prec_MaxHeight s
                 then (keyPoints s)\<lparr>kp_prec_MaxHeight :=
                        \<lparr>kp_time = now, kp_height = y1, kp_speed = vy2\<rparr>\<rparr>
                 else keyPoints s);
          kp2 = (if y1 > maxHeight s
                 then kp1\<lparr>kp_maxHeight := \<lparr>kp_time = now, kp_height = y1, kp_speed = vy2\<rparr>\<rparr>
                 else kp1);
          totalAngleChange =
            (if length (angleChangeBuffer s) > 0 then sumBuffer (angleChangeBuffer s) else 0);
          entry =
            \<lparr>d_time = now,
             d_physicsX = x1,
             d_physicsY = y1,
             d_height = y1,
             d_vx = vx2,
             d_vy = vy2,
             d_ax = ax,
             d_ay = ay,
             d_speedMagnitude = Math_sqrt (vx2 * vx2 + vy2 * vy2),
             d_accelerationMagnitude = Math_sqrt (ax * ax + ay * ay),
             d_angularVelocity = angularVelocity1,
             d_angularAcceleration = angularAcceleration s,
             d_isParachuteEjected = isParachuteEjected s,
             d_isParachuteActive = isParachuteActive s,
             d_parachuteDeploymentProgress = parachuteDeploymentProgress s,
             d_omega = omega s,
             d_omegaDegrees = (omega s * 180 / Fin pi),
             d_torque = torque,
             d_angleChangePerDt2 = totalAngleChange,
             d_horizontalDistance = \<bar>x1\<bar>,
             d_finDeflection = finDeflection S s0,
             d_angleDeviationDegrees = (omega s * 180 / Fin pi) - angle S,
             d_effectiveWindSpeed = effectiveWindSpeed S s0,
             d_isThrustActive = (now \<le> thrustEndTime S),
             d_absoluteAngleDegrees = normalizedAbsoluteAngle S s0,
             d_isAbsoluteAngleOK = isAbsoluteAngleOK s,
             d_angleChangeLimit = MAX_ANGLE_CHANGE_PER_DT2,
             d_absoluteAngleLimit = MAX_ABSOLUTE_ANGLE\<rparr>
      in s\<lparr>vx := vx2, vy := vy2,
            angularVelocity := angularVelocity1,
            x_pos := x1, y_pos := y1,
            prec_MaxHeight := (if y1 > prec_MaxHeight s then y1 else prec_MaxHeight s),
            maxHeight := (if y1 > maxHeight s then y1 else maxHeight s),
            maxSpeed := (if currentSpeed > maxSpeed s then currentSpeed else maxSpeed s),
            maxDistance := (if \<bar>x1\<bar> > maxDistance s then \<bar>x1\<bar> else maxDistance s),
            keyPoints := kp2,
            data := data s @ [entry],
            time := time s + dt\<rparr>)"

text \<open>One pass: the new state, or the state at the \<open>break\<close> of the torque guard.\<close>

datatype pass = Continue state | Break state

definition loopBody :: "flightConstants \<Rightarrow> state \<Rightarrow> pass" where
  "loopBody S s0 =
     (let s1 = updateParachute S s0;
          s2 = checkAbsoluteAngle S s0 s1;
          s3 = updateMaxFinDeflection S s0 s2
      in case computeForces S s0 s3 of
           TorqueAbort s4 \<Rightarrow> Break (s4\<lparr>isTorqueStableOK := False\<rparr>)
         | Forces ax ay torque s4 \<Rightarrow>
             Continue
               (integrate S s0 ax ay torque
                  (enhancedAttitude S s0 (physicalAttitude S s0 (accumulateTorque S torque s4)))))"

text \<open>The loop condition \<open>(y >= 0 || time < 0.1) && time < MAX_TIME\<close>.\<close>

definition loopCondition :: "state \<Rightarrow> bool" where
  "loopCondition s = ((y_pos s \<ge> 0 \<or> time s < 0.1) \<and> time s < MAX_TIME)"

subsection \<open>The loop\<close>

lemma time_updateParachute: "time (updateParachute S s) = time s"
  by (simp add: updateParachute_def Let_def)

lemma time_checkAbsoluteAngle: "time (checkAbsoluteAngle S s0 s) = time s"
  by (simp add: checkAbsoluteAngle_def Let_def)

lemma time_updateMaxFinDeflection: "time (updateMaxFinDeflection S s0 s) = time s"
  by (simp add: updateMaxFinDeflection_def)

lemma time_accumulateTorque: "time (accumulateTorque S torque s) = time s"
  by (simp add: accumulateTorque_def Let_def)

lemma time_physicalAttitude: "time (physicalAttitude S s0 s) = time s"
  by (simp add: physicalAttitude_def Let_def)

lemma time_enhancedAttitude: "time (enhancedAttitude S s0 s) = time s"
  by (simp add: enhancedAttitude_def Let_def)

lemma time_integrate: "time (integrate S s0 ax ay torque s) = time s + dt"
  by (simp add: integrate_def Let_def)

lemma time_parachuteActiveForces:
  "parachuteActiveForces S s0 s = Forces ax ay torque s' \<Longrightarrow> s' = s"
  by (simp add: parachuteActiveForces_def Let_def split: prod.splits)

lemma time_parachuteDeployingForces:
  "parachuteDeployingForces S s0 s = Forces ax ay torque s' \<Longrightarrow> s' = s"
  by (simp add: parachuteDeployingForces_def Let_def split: prod.splits)

lemma time_flightForces:
  "flightForces S s0 s = Forces ax ay torque s' \<Longrightarrow> time s' = time s"
  by (auto simp: flightForces_def Let_def split: prod.splits if_splits torqueResult.splits)

lemma time_computeForces:
  "computeForces S s0 s = Forces ax ay torque s' \<Longrightarrow> time s' = time s"
  by (auto simp: computeForces_def split: if_splits
      dest: time_parachuteActiveForces time_parachuteDeployingForces time_flightForces)

lemma time_loopBody: "loopBody S s = Continue s' \<Longrightarrow> time s' = time s + dt"
  by (auto simp: loopBody_def Let_def time_integrate time_enhancedAttitude
      time_physicalAttitude time_accumulateTorque time_updateMaxFinDeflection
      time_checkAbsoluteAngle time_updateParachute
      split: forces.splits dest!: time_computeForces)

text \<open>
  The \<open>while\<close> loop. A pass that breaks ends the loop with the state at the break.
\<close>

function simulate :: "flightConstants \<Rightarrow> state \<Rightarrow> state" where
  "simulate S s =
     (if loopCondition s
      then (case loopBody S s of Break s' \<Rightarrow> s' | Continue s' \<Rightarrow> simulate S s')
      else s)"
  by pat_completeness auto
termination
proof (relation "measure (\<lambda>(S, s). nat \<lceil>(MAX_TIME - time s) / dt\<rceil>)")
  show "wf (measure (\<lambda>(S, s). nat \<lceil>(MAX_TIME - time s) / dt\<rceil>))"
    by simp
next
  fix S s s'
  assume c: "loopCondition s" and b: "loopBody S s = Continue s'"
  have t: "time s' = time s + dt"
    using b by (rule time_loopBody)
  have "time s < MAX_TIME"
    using c by (simp add: loopCondition_def)
  then have pos: "0 < (MAX_TIME - time s) / dt"
    by (simp add: dt_def)
  have "(MAX_TIME - time s') / dt = (MAX_TIME - time s) / dt - 1"
    by (simp add: t dt_def field_simps)
  then have "\<lceil>(MAX_TIME - time s') / dt\<rceil> = \<lceil>(MAX_TIME - time s) / dt\<rceil> - 1"
    by simp
  moreover have "0 < \<lceil>(MAX_TIME - time s) / dt\<rceil>"
    using pos by simp
  ultimately show "((S, s'), (S, s)) \<in> measure (\<lambda>(S, s). nat \<lceil>(MAX_TIME - time s) / dt\<rceil>)"
    by simp
qed

subsection \<open>The result\<close>

text \<open>The fields of \<open>angleStability\<close>, of \<open>calculations\<close> and of the returned object.\<close>

record angleStability =
  as_maxAngleChangePerDt2 :: number
  as_isAngleStableOK :: bool
  as_isAbsoluteAngleOK :: bool
  as_isTorqueStableOK :: bool
  as_isStabilityOverallOK :: bool
  as_maxAbsoluteAngle :: number

record calculations =
  c_aerodynamicCenter :: number
  c_pressureCenter :: number
  c_stabilityCenterOfPressure :: number
  c_standardStaticMargin :: number
  c_stabilityStaticMargin :: number
  c_finDivergenceSpeed :: number
  c_finFlutterSpeed :: number

record flightResult =
  r_data :: "sample list"
  r_prec_MaxHeight :: number
  r_maxHeight :: number
  r_maxSpeed :: number
  r_maxDistance :: number
  r_maxFinDeflection :: number
  r_keyPoints :: keyPoints
  r_angleStability :: angleStability
  r_projectedAreas :: projectedAreas
  r_volumes :: volumes
  r_pressureCenter :: pressureCenter
  r_aerodynamicCenter :: number
  r_stabilityCenterOfPressure :: number
  r_staticMargins :: staticMargins
  r_calculations :: calculations

text \<open>
  \<open>parseFloat(x.toFixed(2))\<close>: two decimals, half away from zero; from \<open>10^21\<close> on
  \<open>toFixed\<close> prints the number itself.
\<close>

fun toFixed2 :: "number \<Rightarrow> number" where
  "toFixed2 (Fin a) =
     (if 10 ^ 21 \<le> \<bar>a\<bar> then Fin a
      else Fin (sgn a * of_int \<lfloor>\<bar>a\<bar> * 100 + 1 / 2\<rfloor> / 100))"
| "toFixed2 v = v"

text \<open>The object returned after the loop (lines 1764 to 1795).\<close>

definition flightResultOf :: "flightConstants \<Rightarrow> state \<Rightarrow> flightResult" where
  "flightResultOf S s =
     \<lparr>r_data = data s,
      r_prec_MaxHeight = prec_MaxHeight s,
      r_maxHeight = maxHeight s,
      r_maxSpeed = maxSpeed s,
      r_maxDistance = maxDistance s,
      r_maxFinDeflection = maxFinDeflection s,
      r_keyPoints = keyPoints s,
      r_angleStability =
        \<lparr>as_maxAngleChangePerDt2 = maxAngleChangePerDt2 s,
         as_isAngleStableOK = isAngleStableOK s,
         as_isAbsoluteAngleOK = isAbsoluteAngleOK s,
         as_isTorqueStableOK = isTorqueStableOK s,
         as_isStabilityOverallOK =
           (isAngleStableOK s \<and> isAbsoluteAngleOK s \<and> isTorqueStableOK s),
         as_maxAbsoluteAngle = maxAbsoluteAngle s\<rparr>,
      r_projectedAreas = areas S,
      r_volumes = volumeData S,
      r_pressureCenter = cpData S,
      r_aerodynamicCenter = acData S,
      r_stabilityCenterOfPressure = stabilityCpData S,
      r_staticMargins = margins S,
      r_calculations =
        \<lparr>c_aerodynamicCenter = Math_round (acData S),
         c_pressureCenter = Math_round (centerOfPressure (cpData S)),
         c_stabilityCenterOfPressure = Math_round (stabilityCpData S),
         c_standardStaticMargin = toFixed2 (standardStaticMargin (margins S)),
         c_stabilityStaticMargin = toFixed2 (stabilityStaticMargin (margins S)),
         c_finDivergenceSpeed = Math_round (calculateFinDivergenceSpeed (rocket S)),
         c_finFlutterSpeed = Math_round (calculateFinFlutterSpeed (rocket S))\<rparr>\<rparr>"

datatype error = TypeError

text \<open>
  \<open>calculateFlightPath\<close>. After the loop the log statements read \<open>data[0].vx\<close>, which
  throws a TypeError on an empty \<open>data\<close>; nothing else after the loop can throw.
\<close>

definition calculateFlightPath ::
  "rocketParams \<Rightarrow> number \<Rightarrow> number \<Rightarrow> windProfileKey \<Rightarrow> config option \<Rightarrow> error + flightResult"
  where
  "calculateFlightPath =
     (\<lambda>rocketParams angle windSpeed windProfile config.
        let S = prepare rocketParams angle windSpeed windProfile config;
            s = simulate S (initialState S)
        in if data s = [] then Inl TypeError else Inr (flightResultOf S s))"

subsection \<open>Notions used to state the properties of the loop\<close>

text \<open>
  A pass computes the aerodynamic torque when, after the parachute update, no parachute
  is out and either the motor burns, the rocket has left the rail and is faster than
  1 m/s, or the motor has burnt out and the rocket is faster than 0.5 m/s.
\<close>

definition torqueComputed :: "flightConstants \<Rightarrow> state \<Rightarrow> bool" where
  "torqueComputed S s0 =
     (\<not> isParachuteActive (updateParachute S s0)
      \<and> \<not> isParachuteEjected (updateParachute S s0)
      \<and> (if Fin (time s0) < thrustEndTime S
           then \<not> onLaunchRail s0 \<and> velocity s0 > 1.0
           else velocity s0 > 0.5))"

text \<open>\<open>reaches S s t\<close>: the loop, started in state \<open>s\<close>, begins a pass in state \<open>t\<close>.\<close>

inductive reaches :: "flightConstants \<Rightarrow> state \<Rightarrow> state \<Rightarrow> bool" for S :: flightConstants where
  start: "reaches S s s"
| pass: "reaches S s t \<Longrightarrow> loopCondition t \<Longrightarrow> loopBody S t = Continue u \<Longrightarrow> reaches S s u"

declare simulate.simps [simp del]

subsection \<open>Two concrete runs\<close>

text \<open>
  A rocket of 150 g on the smallest motor, launched vertically in still air: it sinks
  below the launch point while the thrust is smaller than its weight.
\<close>

definition heavyRocket :: rocketParams where
  "heavyRocket = initialRocketState\<lparr>weight := 150, selectedMotor := Motor_half_A6_2\<rparr>"

definition heavyRun :: flightConstants where
  "heavyRun = prepare heavyRocket 0 0 uniform None"

text \<open>
  A rocket with a body of 10 m and four fins whose height is half the body width
  (where the lift slope \<open>cl_alpha\<close> is 0), launched vertically in a wind of 8 m/s.
\<close>

definition unstableRocket :: rocketParams where
  "unstableRocket = initialRocketState\<lparr>bodyHeight := 10000, bodyWidth := 40, finHeight := 20,
     finCount := 4, weight := 15, selectedMotor := Motor_B6_4\<rparr>"

definition windyRun :: flightConstants where
  "windyRun = prepare unstableRocket 0 8 uniform None"

section \<open>Landing prediction (RocketLandingPrediction)\<close>

text \<open>
  An element of the flight data as \<open>predictLanding\<close> reads it. Each property may be
  missing (\<open>undefined\<close> or \<open>null\<close>, here \<open>None\<close>); the operator \<open>??\<close> then gives a default.
\<close>

record dataPoint =
  p_height :: "number option"
  p_physicsX :: "number option"
  p_vx :: "number option"
  p_vy :: "number option"
  p_isParachuteActive :: "bool option"
  p_isParachuteEjected :: "bool option"

text \<open>\<open>v ?? d\<close>.\<close>

definition orDefault :: "'a option \<Rightarrow> 'a \<Rightarrow> 'a" where
  "orDefault v d = (case v of None \<Rightarrow> d | Some a \<Rightarrow> a)"

text \<open>A sample recorded by \<open>calculateFlightPath\<close> has all the properties.\<close>

definition dataPointOf :: "sample \<Rightarrow> dataPoint" where
  "dataPointOf d =
     \<lparr>p_height = Some (d_height d), p_physicsX = Some (d_physicsX d),
      p_vx = Some (d_vx d), p_vy = Some (d_vy d),
      p_isParachuteActive = Some (d_isParachuteActive d),
      p_isParachuteEjected = Some (d_isParachuteEjected d)\<rparr>"

text \<open>
  The argument \<open>flightData\<close>: a number; an array, whose elements are data points or
  falsy values (\<open>None\<close>); an object that is not an array, with its property \<open>data\<close>
  when that is an array; or any other value.
\<close>

datatype flightData =
    FlightNumber number
  | FlightArray "dataPoint option list"
  | FlightObject "dataPoint option list option"
  | FlightOther

record landingPrediction =
  landingX :: number
  landingDistance :: number
  timeToLanding :: number
  isPrediction :: bool

definition defaultLandingPrediction :: landingPrediction where
  "defaultLandingPrediction =
     \<lparr>landingX = 0, landingDistance = 0, timeToLanding = 0, isPrediction = True\<rparr>"

text \<open>\<open>s.replace(c, '')\<close> for a one-character pattern: the first occurrence is removed.\<close>

fun replaceFirst :: "char \<Rightarrow> string \<Rightarrow> string" where
  "replaceFirst c [] = []"
| "replaceFirst c (a # as) = (if a = c then as else a # replaceFirst c as)"

definition isDigit :: "char \<Rightarrow> bool" where
  "isDigit c = (48 \<le> (of_char c :: nat) \<and> (of_char c :: nat) \<le> 57)"

text \<open>
  \<open>parseFloat\<close> on a decimal literal with an optional sign and an optional fraction.
  An exponent part and the literal \<open>Infinity\<close>, which no parachute name has, are not read.
\<close>

definition parseFloat :: "string \<Rightarrow> number" where
  "parseFloat s0 =
     (let s1 = dropWhile isWhiteSpace s0;
          negative = (s1 \<noteq> [] \<and> hd s1 = CHR ''-'');
          s2 = (if s1 \<noteq> [] \<and> (hd s1 = CHR ''-'' \<or> hd s1 = CHR ''+'') then tl s1 else s1);
          intDigits = takeWhile isDigit s2;
          rest = dropWhile isDigit s2;
          fracDigits = (if rest \<noteq> [] \<and> hd rest = CHR ''.'' then takeWhile isDigit (tl rest) else []);
          natOf = (\<lambda>ds. case readDigits 10 ds None of None \<Rightarrow> 0 | Some n \<Rightarrow> n);
          v = real (natOf intDigits) + real (natOf fracDigits) / 10 ^ length fracDigits
      in if intDigits = [] \<and> fracDigits = [] then NaN
         else if negative then Fin (- v) else Fin v)"

text \<open>The variables of the descent loop (lines 117 to 121).\<close>

record descent =
  currentHeight :: number
  currentX :: number
  currentVx :: number
  currentVy :: number
  remainingTime :: number

text \<open>The body of the descent loop (lines 126 to 220).\<close>

definition descentStep ::
  "number \<Rightarrow> windProfileKey \<Rightarrow> bool \<Rightarrow> bool \<Rightarrow> number \<Rightarrow> number \<Rightarrow> number \<Rightarrow> number \<Rightarrow> number
     \<Rightarrow> descent \<Rightarrow> descent" where
  "descentStep =
     (\<lambda>windSpeed windProfile isParachuteActive isParachuteEjected parachuteDiameter
        bodyDiameter bodyLength mass_kg safeTerminalVelocity st.
      let g = 9.81;
          rho = 1.225;
          dt = 0.05;
          effectiveWindSpeed = calculateWindSpeedAtHeight windSpeed (currentHeight st) windProfile;
          velocity = Math_sqrt (currentVx st * currentVx st + currentVy st * currentVy st);
          (Fx, Fy0) =
            (if isParachuteActive then
               let Cd = 0.775;
                   Area = Fin pi * Math_pow (parachuteDiameter / 2) 2;
                   Dp = 0.5 * Cd * rho * velocity * velocity * Area;
                   Fx0 = (if velocity > 0.001 then - Dp * (currentVx st / velocity) else 0);
                   Fy = (if velocity > 0.001 then - Dp * (currentVy st / velocity) else 0);
                   Cdw = 0.25;
                   A = parachuteDiameter * parachuteDiameter * 0.785;
                   Dw = 0.5 * Cdw * rho * \<bar>effectiveWindSpeed\<bar> * effectiveWindSpeed * A
               in (Fx0 - Dw, Fy)
             else if isParachuteEjected \<and> \<not> isParachuteActive then
               let dragCoefficient = 0.1;
                   Fx0 = (if velocity > 0.001 then - dragCoefficient * currentVx st else 0);
                   Fy = (if velocity > 0.001 then - mass_kg * g - dragCoefficient * currentVy st
                         else - mass_kg * g);
                   Cdw = 0.25;
                   A = bodyDiameter * bodyLength * 0.5;
                   Dw = 0.5 * Cdw * rho * \<bar>effectiveWindSpeed\<bar> * effectiveWindSpeed * A
               in (Fx0 - Dw * 0.5, Fy)
             else
               let dragCoefficient = 0.05;
                   Fx0 = (if velocity > 0.001 then - dragCoefficient * currentVx st else 0);
                   Fy = (if velocity > 0.001 then - mass_kg * g - dragCoefficient * currentVy st
                         else - mass_kg * g);
                   Cdw = 0.1;
                   A = bodyDiameter * bodyLength * 0.3;
                   Dw = 0.5 * Cdw * rho * \<bar>effectiveWindSpeed\<bar> * effectiveWindSpeed * A
               in (Fx0 - Dw * 0.2, Fy));
          Fy = (if \<not> isParachuteActive then Fy0 - mass_kg * g else Fy0);
          ax = Fx / mass_kg;
          ay = Fy / mass_kg;
          vx1 = currentVx st + ax * dt;
          vy1 = currentVy st + ay * dt;
          vy2 = (if isParachuteActive \<and> vy1 < - safeTerminalVelocity
                 then - safeTerminalVelocity else vy1);
          x1 = currentX st + vx1 * dt;
          h1 = currentHeight st + vy2 * dt;
          h2 = (if h1 < 0 then 0 else h1)
      in \<lparr>currentHeight = h2, currentX = x1, currentVx = vx1, currentVy = vy2,
           remainingTime = remainingTime st - dt\<rparr>)"

text \<open>
  The descent loop \<open>while (currentHeight > 0 && remainingTime > 0)\<close>. It need not end
  (an infinite \<open>remainingTime\<close> stays infinite), so the result is \<open>None\<close> when it does not.
\<close>

partial_function (option) descentLoop :: "(descent \<Rightarrow> descent) \<Rightarrow> descent \<Rightarrow> descent option" where
  "descentLoop step st =
     (if currentHeight st > 0 \<and> remainingTime st > 0 then descentLoop step (step st)
      else Some st)"

text \<open>
  \<open>predictLanding\<close>. The argument \<open>rocketParams\<close> is \<open>None\<close> when it is not an object, and
  the defaults of lines 51 to 56 are used. Nothing in the \<open>try\<close> block throws on these
  values, so the \<open>catch\<close> branch is not modelled. The result is \<open>None\<close> when the function
  does not return.
\<close>

definition predictLanding ::
  "rocketParams option \<Rightarrow> flightData \<Rightarrow> number \<Rightarrow> windProfileKey \<Rightarrow> landingPrediction option" where
  "predictLanding =
     (\<lambda>rocketParams flightData windSpeed windProfile.
        let dataArray =
              (case flightData of
                 FlightObject (Some xs) \<Rightarrow> Some xs
               | FlightArray xs \<Rightarrow> Some xs
               | _ \<Rightarrow> None)
        in case flightData of
             FlightNumber _ \<Rightarrow> Some defaultLandingPrediction
           | _ \<Rightarrow>
             (case dataArray of
                None \<Rightarrow> Some defaultLandingPrediction
              | Some xs \<Rightarrow>
                  if length xs = 0 then Some defaultLandingPrediction
                  else
                    let (weight, bodyWidth, bodyHeight, selectedParachute) =
                          (case rocketParams of
                             None \<Rightarrow> (50, 31, 255, Chute300)
                           | Some p \<Rightarrow> (weight p, bodyWidth p, bodyHeight p, selectedParachute p))
                    in case xs ! (length xs - 1) of
                         None \<Rightarrow> Some defaultLandingPrediction
                       | Some lastDataPoint \<Rightarrow>
                           let finalHeight = orDefault (p_height lastDataPoint) 0;
                               finalX = orDefault (p_physicsX lastDataPoint) 0;
                               finalVx = orDefault (p_vx lastDataPoint) 0;
                               finalVy = orDefault (p_vy lastDataPoint) 0;
                               isParachuteActive =
                                 orDefault (p_isParachuteActive lastDataPoint) False;
                               isParachuteEjected =
                                 orDefault (p_isParachuteEjected lastDataPoint) False
                           in if finalHeight \<le> 0
                              then Some \<lparr>landingX = finalX, landingDistance = \<bar>finalX\<bar>,
                                          timeToLanding = 0, isPrediction = False\<rparr>
                              else
                                let parachuteDiameter =
                                      parseFloat (replaceFirst CHR ''#''
                                        (parachuteName selectedParachute)) / 1000;
                                    bodyDiameter = bodyWidth / 1000;
                                    bodyLength = bodyHeight / 1000;
                                    mass_kg = weight * 0.001;
                                    parachuteTerminalVelocity =
                                      (if isParachuteActive then \<bar>js_or finalVy 5.0\<bar> else 5.0);
                                    safeTerminalVelocity =
                                      (if parachuteTerminalVelocity > 0.5
                                       then parachuteTerminalVelocity else 5.0);
                                    timeToLanding = finalHeight / safeTerminalVelocity
                                in case descentLoop
                                          (descentStep windSpeed windProfile isParachuteActive
                                             isParachuteEjected parachuteDiameter bodyDiameter
                                             bodyLength mass_kg safeTerminalVelocity)
                                          \<lparr>currentHeight = finalHeight, currentX = finalX,
                                           currentVx = finalVx,
                                           currentVy = js_or finalVy (- safeTerminalVelocity),
                                           remainingTime = timeToLanding\<rparr> of
                                     None \<Rightarrow> None
                                   | Some st \<Rightarrow>
                                       Some \<lparr>landingX = currentX st,
                                             landingDistance = \<bar>currentX st\<bar>,
                                             timeToLanding = timeToLanding,
                                             isPrediction = True\<rparr>))"

section \<open>The aerodynamic functions on arbitrary arguments\<close>









section \<open>Properties of the number model\<close>

lemma Math_min_Fin [simp]: "Math_min (Fin a) (Fin b) = Fin (min a b)"
  by (simp add: Math_min_def min_def)

lemma Math_max_Fin [simp]: "Math_max (Fin a) (Fin b) = Fin (max a b)"
  by (simp add: Math_max_def max_def)

lemma Math_min_not_above: "\<not> b < Math_min a b"
  by (cases a; cases b) (auto simp: Math_min_def less_num_def less_eq_num_def)

lemma Math_pow_Fin_pos: "0 < x \<Longrightarrow> e \<noteq> 0 \<Longrightarrow> Math_pow (Fin x) e = Fin (x powr e)"
  by (simp add: Math_pow_def)

lemma Math_pow_Fin_2 [simp]: "Math_pow (Fin x) 2 = Fin (x ^ 2)"
  by (cases "x > 0"; cases "x = 0") (auto simp: Math_pow_def)

lemma Math_pow_Fin_3: "0 \<le> x \<Longrightarrow> Math_pow (Fin x) 3 = Fin (x ^ 3)"
  by (cases "x = 0") (auto simp: Math_pow_def)

lemma cos_arctan_pos: "0 < cos (arctan z)"
  using arctan_lbound [of z] arctan_ubound [of z] by (intro cos_gt_zero_pi)

section \<open>The wind profile\<close>

text \<open>
  C3. \<open>calculateWindSpeedAtHeight\<close> returns the base speed unchanged when the height is
  at most 0 (so at height 0, for every profile) and when the exponent of the profile is 0;
  otherwise it returns the base speed times the minimum of 3 and \<open>(height / 1.5)\<close> to the
  power of the exponent. The multiplier is never above 3, for any height and exponent.
\<close>

theorem calculateWindSpeedAtHeight_power_law:
  "calculateWindSpeedAtHeight b h p =
     (if h \<le> 0 \<or> WIND_PROFILES_alpha p = 0 then b
      else b * Math_min (Math_pow (h / 1.5) (WIND_PROFILES_alpha p)) 3)
   \<and> calculateWindSpeedAtHeight b 0 p = b
   \<and> \<not> 3 < Math_min (Math_pow (h / 1.5) a) 3"
  by (simp add: calculateWindSpeedAtHeight_def Let_def Math_min_not_above)

lemma urban_multiplier_saturates: "(3::real) \<le> (160 / 3) powr (2 / 5)"
proof -
  have "(3::real) = (3 powr (5 / 2)) powr (2 / 5)"
    by (simp add: powr_powr)
  also have "\<dots> \<le> (160 / 3) powr (2 / 5)"
  proof (rule powr_mono2)
    have "(3::real) powr (5 / 2) = 3 powr (2 + 1 / 2)"
      by simp
    also have "\<dots> = 3 powr 2 * 3 powr (1 / 2)"
      by (simp only: powr_add)
    also have "\<dots> = 9 * sqrt 3"
      by (simp add: powr_half_sqrt)
    also have "\<dots> \<le> 9 * 2"
      by (simp add: real_le_lsqrt)
    finally show "(3::real) powr (5 / 2) \<le> 160 / 3" by simp
  qed simp_all
  finally show ?thesis .
qed

text \<open>
  The examples of the specification: at 80 m a base speed of 5 stays 5 under the uniform
  profile and becomes 15 under the urban profile, where the multiplier saturates.
\<close>

theorem calculateWindSpeedAtHeight_power_law_witness:
  "calculateWindSpeedAtHeight 5 80 uniform = 5
   \<and> calculateWindSpeedAtHeight 5 80 urban = 15
   \<and> calculateWindSpeedAtHeight 5 0 urban = 5"
  using calculateWindSpeedAtHeight_power_law [of 5 80 uniform 1]
    calculateWindSpeedAtHeight_power_law [of 5 80 urban 1]
    urban_multiplier_saturates
  by (simp add: Math_pow_def)

section \<open>Fin divergence and flutter speed\<close>

text \<open>
  For a design whose fin height, root chord, tip chord and thickness are positive finite
  numbers (and whose sweep is finite), the divergence speed lies in [20, 300] and the
  flutter speed in [30, 400].
\<close>

lemma calculateFinDivergenceSpeed_range:
  assumes "finHeight P = Fin h" "0 < h" "finBaseWidth P = Fin b" "0 < b"
    "finTipWidth P = Fin t" "0 < t" "finThickness P = Fin d" "0 < d"
    "finSweepLength P = Fin w"
  shows "\<exists>r. calculateFinDivergenceSpeed P = Fin r \<and> 20 \<le> r \<and> r \<le> 300"
proof -
  have "\<exists>m. mat_G (FIN_MATERIALS (finMaterial P)) = Fin m \<and> 0 < m"
    by (cases "finMaterial P") simp_all
  then obtain m where "mat_G (FIN_MATERIALS (finMaterial P)) = Fin m" "0 < m" by blast
  with assms cos_arctan_pos show ?thesis
    by (simp add: calculateFinDivergenceSpeed_def Let_def mmToM_def Math_pow_Fin_3
        Math_pow_Fin_pos)
qed

lemma calculateFinFlutterSpeed_range:
  assumes "finHeight P = Fin h" "0 < h" "finBaseWidth P = Fin b" "0 < b"
    "finTipWidth P = Fin t" "0 < t" "finThickness P = Fin d" "0 < d"
  shows "\<exists>r. calculateFinFlutterSpeed P = Fin r \<and> 30 \<le> r \<and> r \<le> 400"
proof -
  have "\<exists>m. mat_G (FIN_MATERIALS (finMaterial P)) = Fin m \<and> 0 < m"
    by (cases "finMaterial P") simp_all
  then obtain m where "mat_G (FIN_MATERIALS (finMaterial P)) = Fin m" "0 < m" by blast
  with assms show ?thesis
    by (simp add: calculateFinFlutterSpeed_def Let_def mmToM_def Math_pow_Fin_3
        Math_pow_Fin_pos)
qed

text \<open>
  C8. The flutter speed is meant to lie in [30, 400] for every design. For the initial
  design with a pointed fin (tip chord 0, the lower end of its slider) the torsional
  stiffness and the half chord are both 0, the quotient under the root is 0 / 0, and
  \<open>Math.max(30, Math.min(400, NaN))\<close> is NaN: the result is not a speed in the range.
\<close>

theorem calculateFinFlutterSpeed_pointed_fin:
  "calculateFinFlutterSpeed (initialRocketState\<lparr>finTipWidth := 0\<rparr>) = NaN
   \<and> \<not> 30 \<le> calculateFinFlutterSpeed (initialRocketState\<lparr>finTipWidth := 0\<rparr>)
   \<and> \<not> calculateFinFlutterSpeed (initialRocketState\<lparr>finTipWidth := 0\<rparr>) \<le> 400"
  by (simp add: calculateFinFlutterSpeed_def initialRocketState_def Let_def mmToM_def
      Math_pow_def Math_min_def Math_max_def divide_num_def signed_inf_def)

section \<open>The four moments\<close>


lemma isFinite_calculateLiftMoment: "isFinite (calculateLiftMoment v w fa P sa ac cg)"
  by (simp add: calculateLiftMoment_def Let_def isFinite_def)

lemma isFinite_calculateDragMoment: "isFinite (calculateDragMoment v w fa P bd ac cg)"
  by (simp add: calculateDragMoment_def Let_def isFinite_def)

lemma isFinite_calculateWindMoment: "isFinite (calculateWindMoment nh bd bh ws w tfa cp cg)"
  by (simp add: calculateWindMoment_def Let_def isFinite_def)

lemma fin_moment_zero:
  "calculateFinMoment a b c d e f g' h Undefined Undefined Undefined Undefined Undefined Undefined = 0"
  by (simp add: calculateFinMoment_def eq_null_def Let_def)

lemma isFinite_Fin [simp]: "isFinite (Fin a)"
  by (simp add: isFinite_def)

lemma moments_finite:
  assumes "moments S s = (mL, mD, mW, mF)"
  shows "isFinite mL \<and> isFinite mD \<and> isFinite mW \<and> mF = 0"
proof (cases "isCurrentlyZeroWind S s")
  case True
  with assms show ?thesis by (auto simp: moments_def)
next
  case False
  with assms show ?thesis
    by (auto simp: moments_def fin_moment_zero isFinite_calculateLiftMoment
        isFinite_calculateDragMoment isFinite_calculateWindMoment)
qed

lemma isFinite_not_NaN: "isFinite v \<Longrightarrow> \<not> isNaN v"
  by (auto simp: isFinite_def isNaN_def)

lemma aeroTorque_Abnormal:
  "aeroTorque S s = Abnormal \<longleftrightarrow> \<bar>rawTorque S s\<bar> > TORQUE_THRESHOLD"
proof -
  obtain mL mD mW mF where m: "moments S s = (mL, mD, mW, mF)"
    by (cases "moments S s") auto
  from moments_finite [OF m] show ?thesis
    by (simp add: aeroTorque_def m isFinite_not_NaN)
qed






section \<open>The loop of calculateFlightPath\<close>

lemma parachuteActiveForces_no_abort: "parachuteActiveForces S s0 s \<noteq> TorqueAbort s'"
  by (simp add: parachuteActiveForces_def Let_def split: prod.splits)

lemma parachuteDeployingForces_no_abort: "parachuteDeployingForces S s0 s \<noteq> TorqueAbort s'"
  by (simp add: parachuteDeployingForces_def Let_def split: prod.splits)

text \<open>The state a pass of the flight branch works on: the thrust end is noted first.\<close>

lemma flightForces_abort:
  "(\<exists>s'. flightForces S s0 s = TorqueAbort s') \<longleftrightarrow>
     (if Fin (time s0) < thrustEndTime S then \<not> onLaunchRail s0 \<and> velocity s0 > 1.0
      else velocity s0 > 0.5) \<and> \<bar>rawTorque S s0\<bar> > TORQUE_THRESHOLD"
  unfolding aeroTorque_Abnormal [symmetric]
  by (auto simp: flightForces_def Let_def split: prod.splits torqueResult.splits)

lemma flightForces_abort_state:
  "flightForces S s0 s = TorqueAbort s' \<Longrightarrow>
     data s' = data s \<and> time s' = time s \<and> y_pos s' = y_pos s
     \<and> isTorqueStableOK s' = isTorqueStableOK s"
  by (auto simp: flightForces_def Let_def split: prod.splits torqueResult.splits if_splits)


lemma frame_updateParachute [simp]:
  "data (updateParachute S s) = data s"
  "x_pos (updateParachute S s) = x_pos s"
  "y_pos (updateParachute S s) = y_pos s"
  "omega (updateParachute S s) = omega s"
  "isTorqueStableOK (updateParachute S s) = isTorqueStableOK s"
  "stepCounter (updateParachute S s) = stepCounter s"
  "angleChangePerDt2 (updateParachute S s) = angleChangePerDt2 s"
  by (simp_all add: updateParachute_def Let_def)

lemma frame_checkAbsoluteAngle [simp]:
  "data (checkAbsoluteAngle S s0 s) = data s"
  "x_pos (checkAbsoluteAngle S s0 s) = x_pos s"
  "y_pos (checkAbsoluteAngle S s0 s) = y_pos s"
  "vx (checkAbsoluteAngle S s0 s) = vx s"
  "vy (checkAbsoluteAngle S s0 s) = vy s"
  "omega (checkAbsoluteAngle S s0 s) = omega s"
  "isTorqueStableOK (checkAbsoluteAngle S s0 s) = isTorqueStableOK s"
  "isParachuteEjected (checkAbsoluteAngle S s0 s) = isParachuteEjected s"
  "isParachuteActive (checkAbsoluteAngle S s0 s) = isParachuteActive s"
  "parachuteDeploymentProgress (checkAbsoluteAngle S s0 s) = parachuteDeploymentProgress s"
  "stepCounter (checkAbsoluteAngle S s0 s) = stepCounter s"
  "angleChangePerDt2 (checkAbsoluteAngle S s0 s) = angleChangePerDt2 s"
  by (simp_all add: checkAbsoluteAngle_def Let_def)

lemma frame_updateMaxFinDeflection [simp]:
  "data (updateMaxFinDeflection S s0 s) = data s"
  "x_pos (updateMaxFinDeflection S s0 s) = x_pos s"
  "y_pos (updateMaxFinDeflection S s0 s) = y_pos s"
  "vx (updateMaxFinDeflection S s0 s) = vx s"
  "vy (updateMaxFinDeflection S s0 s) = vy s"
  "omega (updateMaxFinDeflection S s0 s) = omega s"
  "isTorqueStableOK (updateMaxFinDeflection S s0 s) = isTorqueStableOK s"
  "isParachuteEjected (updateMaxFinDeflection S s0 s) = isParachuteEjected s"
  "isParachuteActive (updateMaxFinDeflection S s0 s) = isParachuteActive s"
  "parachuteDeploymentProgress (updateMaxFinDeflection S s0 s) = parachuteDeploymentProgress s"
  "stepCounter (updateMaxFinDeflection S s0 s) = stepCounter s"
  "angleChangePerDt2 (updateMaxFinDeflection S s0 s) = angleChangePerDt2 s"
  by (simp_all add: updateMaxFinDeflection_def)

lemma frame_accumulateTorque [simp]:
  "data (accumulateTorque S q s) = data s"
  "x_pos (accumulateTorque S q s) = x_pos s"
  "y_pos (accumulateTorque S q s) = y_pos s"
  "vx (accumulateTorque S q s) = vx s"
  "vy (accumulateTorque S q s) = vy s"
  "omega (accumulateTorque S q s) = omega s"
  "isTorqueStableOK (accumulateTorque S q s) = isTorqueStableOK s"
  "isParachuteEjected (accumulateTorque S q s) = isParachuteEjected s"
  "isParachuteActive (accumulateTorque S q s) = isParachuteActive s"
  "parachuteDeploymentProgress (accumulateTorque S q s) = parachuteDeploymentProgress s"
  by (simp_all add: accumulateTorque_def Let_def)

lemma frame_physicalAttitude [simp]:
  "data (physicalAttitude S s0 s) = data s"
  "x_pos (physicalAttitude S s0 s) = x_pos s"
  "y_pos (physicalAttitude S s0 s) = y_pos s"
  "vx (physicalAttitude S s0 s) = vx s"
  "vy (physicalAttitude S s0 s) = vy s"
  "isTorqueStableOK (physicalAttitude S s0 s) = isTorqueStableOK s"
  "isParachuteEjected (physicalAttitude S s0 s) = isParachuteEjected s"
  "isParachuteActive (physicalAttitude S s0 s) = isParachuteActive s"
  "parachuteDeploymentProgress (physicalAttitude S s0 s) = parachuteDeploymentProgress s"
  "stepCounter (physicalAttitude S s0 s) = stepCounter s"
  "angleChangePerDt2 (physicalAttitude S s0 s) = angleChangePerDt2 s"
  by (simp_all add: physicalAttitude_def Let_def)

lemma frame_enhancedAttitude [simp]:
  "data (enhancedAttitude S s0 s) = data s"
  "x_pos (enhancedAttitude S s0 s) = x_pos s"
  "y_pos (enhancedAttitude S s0 s) = y_pos s"
  "vx (enhancedAttitude S s0 s) = vx s"
  "vy (enhancedAttitude S s0 s) = vy s"
  "isTorqueStableOK (enhancedAttitude S s0 s) = isTorqueStableOK s"
  "isParachuteEjected (enhancedAttitude S s0 s) = isParachuteEjected s"
  "isParachuteActive (enhancedAttitude S s0 s) = isParachuteActive s"
  "parachuteDeploymentProgress (enhancedAttitude S s0 s) = parachuteDeploymentProgress s"
  "stepCounter (enhancedAttitude S s0 s) = stepCounter s"
  "angleChangePerDt2 (enhancedAttitude S s0 s) = angleChangePerDt2 s"
  by (simp_all add: enhancedAttitude_def Let_def)

lemma frame_integrate [simp]:
  "isTorqueStableOK (integrate S s0 ax ay q s) = isTorqueStableOK s"
  "isParachuteEjected (integrate S s0 ax ay q s) = isParachuteEjected s"
  "isParachuteActive (integrate S s0 ax ay q s) = isParachuteActive s"
  "parachuteDeploymentProgress (integrate S s0 ax ay q s) = parachuteDeploymentProgress s"
  "omega (integrate S s0 ax ay q s) = omega s"
  "stepCounter (integrate S s0 ax ay q s) = stepCounter s"
  "angleChangePerDt2 (integrate S s0 ax ay q s) = angleChangePerDt2 s"
  by (simp_all add: integrate_def Let_def)

lemma integrate_sample:
  "\<exists>e. data (integrate S s0 ax ay q s) = data s @ [e]
     \<and> d_time e = Fin (time s)
     \<and> d_height e = y_pos (integrate S s0 ax ay q s)
     \<and> d_vx e = vx (integrate S s0 ax ay q s)
     \<and> d_vy e = vy (integrate S s0 ax ay q s)
     \<and> d_isParachuteEjected e = isParachuteEjected s
     \<and> d_isParachuteActive e = isParachuteActive s
     \<and> d_parachuteDeploymentProgress e = parachuteDeploymentProgress s"
  by (simp add: integrate_def Let_def)

text \<open>What the force computation leaves unchanged.\<close>

lemma computeForces_frame:
  assumes "computeForces S s0 s = Forces ax ay q s' \<or> computeForces S s0 s = TorqueAbort s'"
  shows "data s' = data s \<and> time s' = time s \<and> x_pos s' = x_pos s \<and> y_pos s' = y_pos s
    \<and> vx s' = vx s \<and> vy s' = vy s \<and> omega s' = omega s
    \<and> isTorqueStableOK s' = isTorqueStableOK s
    \<and> isParachuteEjected s' = isParachuteEjected s
    \<and> isParachuteActive s' = isParachuteActive s
    \<and> parachuteDeploymentProgress s' = parachuteDeploymentProgress s
    \<and> stepCounter s' = stepCounter s \<and> angleChangePerDt2 s' = angleChangePerDt2 s"
proof -
  have "s' = s \<or> s' = s\<lparr>thrustEndFlag := True,
      keyPoints := (keyPoints s)\<lparr>kp_thrustEnd :=
        \<lparr>kp_time = Fin (time s), kp_height = y_pos s, kp_speed = vy s\<rparr>\<rparr>\<rparr>"
    using assms
    by (auto simp: computeForces_def parachuteActiveForces_def parachuteDeployingForces_def
        flightForces_def Let_def split: if_splits prod.splits torqueResult.splits)
  then show ?thesis by auto
qed

lemma computeForces_abort:
  "(\<exists>s'. computeForces S s0 s = TorqueAbort s') \<longleftrightarrow>
     \<not> isParachuteActive s \<and> \<not> isParachuteEjected s
     \<and> (if Fin (time s0) < thrustEndTime S then \<not> onLaunchRail s0 \<and> velocity s0 > 1.0
         else velocity s0 > 0.5)
     \<and> \<bar>rawTorque S s0\<bar> > TORQUE_THRESHOLD"
  using flightForces_abort [of S s0 s]
  by (auto simp: computeForces_def parachuteActiveForces_no_abort
      parachuteDeployingForces_no_abort)

lemma loopBody_Break_iff:
  "(\<exists>s'. loopBody S s0 = Break s') \<longleftrightarrow>
     torqueComputed S s0 \<and> \<bar>rawTorque S s0\<bar> > TORQUE_THRESHOLD"
proof -
  let ?s3 = "updateMaxFinDeflection S s0 (checkAbsoluteAngle S s0 (updateParachute S s0))"
  have "(\<exists>s'. loopBody S s0 = Break s') \<longleftrightarrow> (\<exists>s4. computeForces S s0 ?s3 = TorqueAbort s4)"
    by (auto simp: loopBody_def Let_def split: forces.splits)
  then show ?thesis
    by (simp add: computeForces_abort torqueComputed_def)
qed

lemma loopBody_Break_state:
  assumes "loopBody S s0 = Break s'"
  shows "data s' = data s0 \<and> time s' = time s0 \<and> y_pos s' = y_pos s0 \<and> \<not> isTorqueStableOK s'"
proof -
  let ?s3 = "updateMaxFinDeflection S s0 (checkAbsoluteAngle S s0 (updateParachute S s0))"
  from assms obtain s4 where a: "computeForces S s0 ?s3 = TorqueAbort s4"
    and s': "s' = s4\<lparr>isTorqueStableOK := False\<rparr>"
    by (auto simp: loopBody_def Let_def split: forces.splits)
  from a have "computeForces S s0 ?s3 = Forces 0 0 0 s4 \<or> computeForces S s0 ?s3 = TorqueAbort s4"
    by simp
  from computeForces_frame [OF this] show ?thesis
    by (simp add: s' time_updateMaxFinDeflection time_checkAbsoluteAngle time_updateParachute)
qed

lemma loopBody_Continue_state:
  assumes "loopBody S s0 = Continue s'"
  shows "\<exists>e. data s' = data s0 @ [e] \<and> d_time e = Fin (time s0) \<and> d_height e = y_pos s'
    \<and> d_vx e = vx s' \<and> d_vy e = vy s'
    \<and> d_isParachuteEjected e = isParachuteEjected s'
    \<and> d_isParachuteActive e = isParachuteActive s'
    \<and> d_parachuteDeploymentProgress e = parachuteDeploymentProgress s'
    \<and> isParachuteEjected s' = isParachuteEjected (updateParachute S s0)
    \<and> isParachuteActive s' = isParachuteActive (updateParachute S s0)
    \<and> parachuteDeploymentProgress s' = parachuteDeploymentProgress (updateParachute S s0)
    \<and> isTorqueStableOK s' = isTorqueStableOK s0"
proof -
  let ?s3 = "updateMaxFinDeflection S s0 (checkAbsoluteAngle S s0 (updateParachute S s0))"
  from assms obtain ax ay q s4 where a: "computeForces S s0 ?s3 = Forces ax ay q s4"
    and s': "s' = integrate S s0 ax ay q
        (enhancedAttitude S s0 (physicalAttitude S s0 (accumulateTorque S q s4)))"
    by (auto simp: loopBody_def Let_def split: forces.splits)
  from a have "computeForces S s0 ?s3 = Forces ax ay q s4 \<or> computeForces S s0 ?s3 = TorqueAbort s4"
    by simp
  note f = computeForces_frame [OF this]
  from integrate_sample [of S s0 ax ay q
      "enhancedAttitude S s0 (physicalAttitude S s0 (accumulateTorque S q s4))"]
  obtain e where e: "data s' = data (enhancedAttitude S s0 (physicalAttitude S s0 (accumulateTorque S q s4))) @ [e]"
    "d_time e = Fin (time (enhancedAttitude S s0 (physicalAttitude S s0 (accumulateTorque S q s4))))"
    "d_height e = y_pos s'" "d_vx e = vx s'" "d_vy e = vy s'"
    "d_isParachuteEjected e = isParachuteEjected (enhancedAttitude S s0 (physicalAttitude S s0 (accumulateTorque S q s4)))"
    "d_isParachuteActive e = isParachuteActive (enhancedAttitude S s0 (physicalAttitude S s0 (accumulateTorque S q s4)))"
    "d_parachuteDeploymentProgress e = parachuteDeploymentProgress (enhancedAttitude S s0 (physicalAttitude S s0 (accumulateTorque S q s4)))"
    unfolding s' by blast
  show ?thesis
    apply (rule exI [of _ e])
    using e f
    by (simp add: s' time_enhancedAttitude time_physicalAttitude time_accumulateTorque
        time_updateMaxFinDeflection time_checkAbsoluteAngle time_updateParachute)
qed


subsection \<open>The loop as a whole\<close>

lemma simulate_stop: "\<not> loopCondition s \<Longrightarrow> simulate S s = s"
  by (simp add: simulate.simps)

lemma simulate_break: "loopCondition s \<Longrightarrow> loopBody S s = Break s' \<Longrightarrow> simulate S s = s'"
  by (simp add: simulate.simps)

lemma simulate_continue:
  "loopCondition s \<Longrightarrow> loopBody S s = Continue s' \<Longrightarrow> simulate S s = simulate S s'"
  by (simp add: simulate.simps)

lemma simulate_reaches: "reaches S s t \<Longrightarrow> simulate S s = simulate S t"
  by (induction rule: reaches.induct) (simp_all add: simulate_continue)

text \<open>An invariant of the passes holds for the state the loop ends in.\<close>

lemma simulate_invariant:
  "I s \<Longrightarrow>
   (\<And>t u. I t \<Longrightarrow> loopCondition t \<Longrightarrow> loopBody S t = Continue u \<Longrightarrow> I u) \<Longrightarrow>
   (\<And>t u. I t \<Longrightarrow> loopCondition t \<Longrightarrow> loopBody S t = Break u \<Longrightarrow> I u) \<Longrightarrow>
   I (simulate S s)"
proof (induction S s rule: simulate.induct)
  case (1 S s)
  show ?case
  proof (cases "loopCondition s")
    case False
    with "1.prems"(1) show ?thesis by (simp add: simulate_stop)
  next
    case True
    show ?thesis
    proof (cases "loopBody S s")
      case (Continue u)
      have "I u" using "1.prems"(2) [OF "1.prems"(1) True Continue] .
      then have "I (simulate S u)"
        using "1.IH" [OF True Continue] "1.prems"(2,3) by blast
      then show ?thesis using True Continue by (simp add: simulate_continue)
    next
      case (Break u)
      have "I u" using "1.prems"(3) [OF "1.prems"(1) True Break] .
      then show ?thesis using True Break by (simp add: simulate_break)
    qed
  qed
qed

subsection \<open>Passes on the rail of a vertical launch\<close>


lemma velocity_Fin: "vx s = Fin u \<Longrightarrow> vy s = Fin v \<Longrightarrow> velocity s = Fin (sqrt (u * u + v * v))"
  by (simp add: velocity_def)

lemma distanceFromStart_rail:
  "x_pos s = 0 \<Longrightarrow> y_pos s = Fin y \<Longrightarrow> distanceFromStart s = Fin \<bar>y\<bar>"
  by (simp add: distanceFromStart_def)

lemma onLaunchRail_rail:
  "x_pos s = 0 \<Longrightarrow> y_pos s = Fin y \<Longrightarrow> onLaunchRail s \<longleftrightarrow> \<bar>y\<bar> < 0.65"
  by (simp add: onLaunchRail_def distanceFromStart_rail launchRailLength_def)

lemma updateParachute_idle:
  assumes "\<not> isParachuteEjected s" "\<not> isParachuteActive s"
    "\<not> Fin (time s) \<ge> parachuteEjectionTime S" "\<not> Fin (time s) \<ge> parachuteActiveTime S"
  shows "updateParachute S s = s"
  using assms by (simp add: updateParachute_def Let_def)

lemma accumulateTorque_counting:
  assumes "stepCounter s + 1 < ANGLE_STEPS_PER_UPDATE"
  shows "stepCounter (accumulateTorque S q s) = stepCounter s + 1"
    "angleChangePerDt2 (accumulateTorque S q s) = angleChangePerDt2 s"
  using assms by (simp_all add: accumulateTorque_def Let_def)

lemma physicalAttitude_rail:
  assumes "onLaunchRail s0"
  shows "omega (physicalAttitude S s0 s) = omega s + angleChangePerDt2 s / Fin (real ANGLE_STEPS_PER_UPDATE)"
  using assms by (simp add: physicalAttitude_def Let_def)

lemma enhancedAttitude_rail:
  assumes "onLaunchRail s0"
  shows "enhancedAttitude S s0 s = s"
  using assms by (simp add: enhancedAttitude_def)

lemma integrate_rail_vertical:
  assumes "onLaunchRail s0" "js_eq (angle S) 0"
    "vx s = Fin u" "vy s = Fin v" "y_pos s = Fin y"
    "(u + a * dt)\<^sup>2 + (v + b * dt)\<^sup>2 \<le> 10000"
  shows "vx (integrate S s0 (Fin a) (Fin b) q s) = Fin (u + a * dt)"
    "vy (integrate S s0 (Fin a) (Fin b) q s) = Fin (v + b * dt)"
    "x_pos (integrate S s0 (Fin a) (Fin b) q s) = 0"
    "y_pos (integrate S s0 (Fin a) (Fin b) q s) = Fin (y + (v + b * dt) * dt)"
proof -
  have "sqrt ((u + a * dt) * (u + a * dt) + (v + b * dt) * (v + b * dt)) \<le> 100"
    using assms(6) by (intro real_le_lsqrt) (simp_all add: power2_eq_square)
  then have c: "\<not> 100 < sqrt ((u + a * dt) * (u + a * dt) + (v + b * dt) * (v + b * dt))"
    by simp
  show "vx (integrate S s0 (Fin a) (Fin b) q s) = Fin (u + a * dt)"
    "vy (integrate S s0 (Fin a) (Fin b) q s) = Fin (v + b * dt)"
    "x_pos (integrate S s0 (Fin a) (Fin b) q s) = 0"
    "y_pos (integrate S s0 (Fin a) (Fin b) q s) = Fin (y + (v + b * dt) * dt)"
    using assms(1-5) c by (simp_all add: integrate_def Let_def)
qed

text \<open>The force computation of a powered pass on the rail of a vertical launch.\<close>

lemma computeForces_rail_vertical:
  assumes "onLaunchRail s0" "js_eq (angle S) 0"
    "\<not> isParachuteEjected s" "\<not> isParachuteActive s"
    "Fin (time s0) < thrustEndTime S" "thrustAt S s0 = Fin th"
    "mass_kg S = Fin m" "0.000001 \<le> m"
    "effectiveWindSpeed S s0 = Fin w" "bodyDiameter S = Fin bd" "bodyLength S = Fin bl"
  shows "computeForces S s0 s =
     Forces (Fin (- (0.5 * 0.25 * 1.225 * \<bar>w\<bar> * w * (bd * bl)) / m))
            (Fin ((th - m * 9.81) / m)) 0 s"
  using assms
  by (simp add: computeForces_def flightForces_def Let_def accelerations_def g_acc_def)


text \<open>A powered pass on the rail of a vertical launch, before the first attitude update.\<close>

lemma rail_pass:
  assumes rail: "x_pos s = 0" "y_pos s = Fin y" "\<bar>y\<bar> < 0.65" "js_eq (angle S) 0"
    and vel: "vx s = Fin u" "vy s = Fin v"
    and chute: "\<not> isParachuteEjected s" "\<not> isParachuteActive s"
      "\<not> Fin (time s) \<ge> parachuteEjectionTime S" "\<not> Fin (time s) \<ge> parachuteActiveTime S"
    and burn: "Fin (time s) < thrustEndTime S" "thrustAt S s = Fin th"
    and mass: "mass_kg S = Fin m" "0.000001 \<le> m"
    and wind: "effectiveWindSpeed S s = Fin w" "bodyDiameter S = Fin bd" "bodyLength S = Fin bl"
    and att: "stepCounter s + 1 < ANGLE_STEPS_PER_UPDATE" "angleChangePerDt2 s = 0" "omega s = Fin om"
    and a: "a = - (0.5 * 0.25 * 1.225 * \<bar>w\<bar> * w * (bd * bl)) / m"
    and b: "b = (th - m * 9.81) / m"
    and slow: "(u + a * dt)\<^sup>2 + (v + b * dt)\<^sup>2 \<le> 10000"
  shows "\<exists>s'. loopBody S s = Continue s'
    \<and> time s' = time s + dt
    \<and> x_pos s' = 0 \<and> y_pos s' = Fin (y + (v + b * dt) * dt)
    \<and> vx s' = Fin (u + a * dt) \<and> vy s' = Fin (v + b * dt)
    \<and> \<not> isParachuteEjected s' \<and> \<not> isParachuteActive s'
    \<and> stepCounter s' = stepCounter s + 1 \<and> angleChangePerDt2 s' = 0 \<and> omega s' = Fin om"
proof -
  have r: "onLaunchRail s"
    using rail by (simp add: onLaunchRail_rail)
  have p: "updateParachute S s = s"
    using chute by (rule updateParachute_idle)
  let ?s3 = "updateMaxFinDeflection S s (checkAbsoluteAngle S s s)"
  have f: "computeForces S s ?s3 = Forces (Fin a) (Fin b) 0 ?s3"
    unfolding a b
    by (rule computeForces_rail_vertical) (use r rail chute burn mass wind in simp_all)
  let ?s6 = "enhancedAttitude S s (physicalAttitude S s (accumulateTorque S 0 ?s3))"
  have l: "loopBody S s = Continue (integrate S s (Fin a) (Fin b) 0 ?s6)"
    by (simp add: loopBody_def Let_def p f)
  have v6: "vx ?s6 = Fin u" "vy ?s6 = Fin v" "y_pos ?s6 = Fin y"
    using vel rail by simp_all
  note i = integrate_rail_vertical [OF r rail(4) v6 slow]
  have c: "stepCounter ?s6 = stepCounter s + 1" "angleChangePerDt2 ?s6 = 0"
    using att by (simp_all add: accumulateTorque_counting)
  have o: "omega ?s6 = Fin om"
    using att r by (simp add: enhancedAttitude_rail physicalAttitude_rail
        accumulateTorque_counting ANGLE_STEPS_PER_UPDATE_def)
  show ?thesis
    apply (rule exI [of _ "integrate S s (Fin a) (Fin b) 0 ?s6"])
    using l i c o chute
    by (simp add: time_integrate time_enhancedAttitude time_physicalAttitude
        time_accumulateTorque time_updateMaxFinDeflection time_checkAbsoluteAngle)
qed

subsection \<open>The run of the heavy rocket\<close>


lemma heavyRun_consts:
  "angle heavyRun = 0" "mass_kg heavyRun = Fin 0.15" "thrustEndTime heavyRun = Fin 0.68"
  "parachuteEjectionTime heavyRun = Fin 2.68" "parachuteActiveTime heavyRun = Fin 3.68"
  "bodyDiameter heavyRun = Fin 0.031" "bodyLength heavyRun = Fin 0.312"
  "windSpeed heavyRun = 0" "windProfile heavyRun = uniform"
  "thrustData heavyRun = MOTOR_THRUST_DATA Motor_half_A6_2"
  by (simp_all add: heavyRun_def heavyRocket_def prepare_def initialRocketState_def Let_def
      gToKg_def mmToM_def dt_def parachuteDelay_def parseInt_def nth_opt_def isWhiteSpace_def
      digitValue_def parachuteDeployTime_def)

lemma heavyRun_wind: "effectiveWindSpeed heavyRun s = Fin 0"
  by (simp add: effectiveWindSpeed_def heavyRun_consts calculateWindSpeedAtHeight_def)

lemma thrustAt_index:
  assumes "time s = real k * dt" "k < length (thrustData S)"
  shows "thrustAt S s = thrustData S ! k"
proof -
  have "\<lfloor>time s / dt\<rfloor> = int k"
    using assms(1) by (simp add: dt_def)
  with assms(2) show ?thesis
    by (simp add: thrustAt_def Let_def min_def)
qed

lemma heavy_thrust:
  "time s = 0 \<Longrightarrow> thrustAt heavyRun s = Fin 0"
  "time s = 0.02 \<Longrightarrow> thrustAt heavyRun s = Fin 0.445"
  "time s = 0.04 \<Longrightarrow> thrustAt heavyRun s = Fin 0.891"
  "time s = 0.06 \<Longrightarrow> thrustAt heavyRun s = Fin 1.336"
  "time s = 0.08 \<Longrightarrow> thrustAt heavyRun s = Fin 1.782"
  using thrustAt_index [of s 0 heavyRun] thrustAt_index [of s 1 heavyRun]
    thrustAt_index [of s 2 heavyRun] thrustAt_index [of s 3 heavyRun]
    thrustAt_index [of s 4 heavyRun]
  by (simp_all add: heavyRun_consts dt_def)


lemma heavy_pass:
  assumes "x_pos s = 0" "y_pos s = Fin y" "\<bar>y\<bar> < 0.65" "vx s = Fin 0" "vy s = Fin v"
    and "\<not> isParachuteEjected s" "\<not> isParachuteActive s"
    and "time s < 0.68" "thrustAt heavyRun s = Fin th"
    and "stepCounter s + 1 < 10" "angleChangePerDt2 s = 0" "omega s = Fin 0"
    and "b = (th - 0.15 * 9.81) / 0.15" "\<bar>v + b * dt\<bar> \<le> 100"
  shows "\<exists>s'. loopBody heavyRun s = Continue s'
    \<and> time s' = time s + dt
    \<and> x_pos s' = 0 \<and> y_pos s' = Fin (y + (v + b * dt) * dt)
    \<and> vx s' = Fin 0 \<and> vy s' = Fin (v + b * dt)
    \<and> \<not> isParachuteEjected s' \<and> \<not> isParachuteActive s'
    \<and> stepCounter s' = stepCounter s + 1 \<and> angleChangePerDt2 s' = 0 \<and> omega s' = Fin 0"
proof -
  have "(v + b * dt)\<^sup>2 \<le> 100\<^sup>2"
    using assms(14) by (intro iffD1 [OF abs_le_square_iff]) simp
  then have sl: "(0 + 0 * dt)\<^sup>2 + (v + b * dt)\<^sup>2 \<le> 10000"
    by simp
  have "\<exists>s'. loopBody heavyRun s = Continue s'
    \<and> time s' = time s + dt
    \<and> x_pos s' = 0 \<and> y_pos s' = Fin (y + (v + b * dt) * dt)
    \<and> vx s' = Fin (0 + 0 * dt) \<and> vy s' = Fin (v + b * dt)
    \<and> \<not> isParachuteEjected s' \<and> \<not> isParachuteActive s'
    \<and> stepCounter s' = stepCounter s + 1 \<and> angleChangePerDt2 s' = 0 \<and> omega s' = Fin 0"
    by (rule rail_pass [where w = 0 and m = "0.15" and th = th and bd = "0.031" and bl = "0.312"
          and a = 0, OF _ _ _ _ _ _ _ _ _ _ _ _ _ _ _ _ _ _ _ _ _ _ sl])
      (use assms in \<open>simp_all add: heavyRun_consts heavyRun_wind ANGLE_STEPS_PER_UPDATE_def js_eq_def\<close>)
  then show ?thesis by simp
qed


lemma pass_sample:
  assumes "loopBody S s = Continue s'"
  shows "data s' \<noteq> [] \<and> d_height (last (data s')) = y_pos s'
    \<and> d_time (last (data s')) = Fin (time s) \<and> isTorqueStableOK s' = isTorqueStableOK s"
  using loopBody_Continue_state [OF assms] by auto

lemma initialState_heavyRun:
  "x_pos (initialState heavyRun) = 0" "y_pos (initialState heavyRun) = Fin 0"
  "vx (initialState heavyRun) = Fin 0" "vy (initialState heavyRun) = Fin 0"
  "\<not> isParachuteEjected (initialState heavyRun)" "\<not> isParachuteActive (initialState heavyRun)"
  "time (initialState heavyRun) = 0" "stepCounter (initialState heavyRun) = 0"
  "angleChangePerDt2 (initialState heavyRun) = 0" "omega (initialState heavyRun) = Fin 0"
  "isTorqueStableOK (initialState heavyRun)"
  by (simp_all add: initialState_def heavyRun_consts)

lemma heavy_simulation:
  "isTorqueStableOK (simulate heavyRun (initialState heavyRun))
   \<and> data (simulate heavyRun (initialState heavyRun)) \<noteq> []
   \<and> d_time (last (data (simulate heavyRun (initialState heavyRun)))) = Fin 0.08
   \<and> d_height (last (data (simulate heavyRun (initialState heavyRun)))) = Fin (- 0.035108)"
proof -
  let ?S = heavyRun
  define s0 where "s0 = initialState heavyRun"
  have s0: "time s0 = 0" "x_pos s0 = 0" "y_pos s0 = Fin 0" "vx s0 = Fin 0" "vy s0 = Fin 0"
    "\<not> isParachuteEjected s0" "\<not> isParachuteActive s0"
    "stepCounter s0 = 0" "angleChangePerDt2 s0 = 0" "omega s0 = Fin 0"
    by (simp_all add: s0_def initialState_heavyRun)
  have ok0: "isTorqueStableOK s0"
    by (simp add: s0_def initialState_heavyRun)
  have c0: "loopCondition s0"
    by (simp add: loopCondition_def s0 MAX_TIME_def)
  obtain s1 where l0: "loopBody ?S s0 = Continue s1"
    and s1: "time s1 = 0.02" "x_pos s1 = 0" "y_pos s1 = Fin (- (981 / 250000))" "vx s1 = Fin 0"
      "vy s1 = Fin (- (981 / 5000))" "\<not> isParachuteEjected s1" "\<not> isParachuteActive s1"
      "stepCounter s1 = 1" "angleChangePerDt2 s1 = 0" "omega s1 = Fin 0"
    using heavy_pass [of s0 "0" "0" "0" "- (981 / 100)"] heavy_thrust(1) [of s0]
    by (auto simp: s0 dt_def)
  have c1: "loopCondition s1"
    by (simp add: loopCondition_def s1 MAX_TIME_def)
  obtain s2 where l1: "loopBody ?S s1 = Continue s2"
    and s2: "time s2 = 0.04" "x_pos s2 = 0" "y_pos s2 = Fin (- (7939 / 750000))" "vx s2 = Fin 0"
      "vy s2 = Fin (- (1249 / 3750))" "\<not> isParachuteEjected s2" "\<not> isParachuteActive s2"
      "stepCounter s2 = 2" "angleChangePerDt2 s2 = 0" "omega s2 = Fin 0"
    using heavy_pass [of s1 "- (981 / 250000)" "- (981 / 5000)" "0.445" "- (2053 / 300)"] heavy_thrust(2) [of s1]
    by (auto simp: s1 dt_def)
  have c2: "loopCondition s2"
    by (simp add: loopCondition_def s2 MAX_TIME_def)
  obtain s3 where l2: "loopBody ?S s2 = Continue s3"
    and s3: "time s3 = 0.06" "x_pos s3 = 0" "y_pos s3 = Fin (- (881 / 46875))" "vx s3 = Fin 0"
      "vy s3 = Fin (- (6157 / 15000))" "\<not> isParachuteEjected s3" "\<not> isParachuteActive s3"
      "stepCounter s3 = 3" "angleChangePerDt2 s3 = 0" "omega s3 = Fin 0"
    using heavy_pass [of s2 "- (7939 / 750000)" "- (1249 / 3750)" "0.891" "- (387 / 100)"] heavy_thrust(3) [of s2]
    by (auto simp: s2 dt_def)
  have c3: "loopCondition s3"
    by (simp add: loopCondition_def s3 MAX_TIME_def)
  obtain s4 where l3: "loopBody ?S s3 = Continue s4"
    and s4: "time s4 = 0.08" "x_pos s4 = 0" "y_pos s4 = Fin (- (5131 / 187500))" "vx s4 = Fin 0"
      "vy s4 = Fin (- (1607 / 3750))" "\<not> isParachuteEjected s4" "\<not> isParachuteActive s4"
      "stepCounter s4 = 4" "angleChangePerDt2 s4 = 0" "omega s4 = Fin 0"
    using heavy_pass [of s3 "- (881 / 46875)" "- (6157 / 15000)" "1.336" "- (271 / 300)"] heavy_thrust(4) [of s3]
    by (auto simp: s3 dt_def)
  have c4: "loopCondition s4"
    by (simp add: loopCondition_def s4 MAX_TIME_def)
  obtain s5 where l4: "loopBody ?S s4 = Continue s5"
    and s5: "time s5 = 0.1" "x_pos s5 = 0" "y_pos s5 = Fin (- (8777 / 250000))" "vx s5 = Fin 0"
      "vy s5 = Fin (- (5807 / 15000))" "\<not> isParachuteEjected s5" "\<not> isParachuteActive s5"
      "stepCounter s5 = 5" "angleChangePerDt2 s5 = 0" "omega s5 = Fin 0"
    using heavy_pass [of s4 "- (5131 / 187500)" "- (1607 / 3750)" "1.782" "207 / 100"] heavy_thrust(5) [of s4]
    by (auto simp: s4 dt_def)
  have c5: "\<not> loopCondition s5"
    by (simp add: loopCondition_def s5)
  have "simulate ?S s0 = simulate ?S s5"
    using c0 c1 c2 c3 c4 l0 l1 l2 l3 l4 by (simp add: simulate_continue)
  then have f: "simulate ?S s0 = s5"
    using c5 by (simp add: simulate_stop)
  have ok: "isTorqueStableOK s5"
    using pass_sample [OF l0] pass_sample [OF l1] pass_sample [OF l2] pass_sample [OF l3]
      pass_sample [OF l4] ok0 by simp
  show ?thesis
    unfolding s0_def [symmetric] f
    using pass_sample [OF l4] ok by (simp add: s5 s4)
qed

subsection \<open>The run of the long rocket in wind\<close>


lemma windyRun_consts:
  "angle windyRun = 0" "mass_kg windyRun = Fin 0.015" "thrustEndTime windyRun = Fin 0.66"
  "parachuteEjectionTime windyRun = Fin 4.66" "parachuteActiveTime windyRun = Fin 5.66"
  "bodyDiameter windyRun = Fin 0.04" "bodyLength windyRun = Fin 10.057"
  "windSpeed windyRun = 8" "windProfile windyRun = uniform"
  "thrustData windyRun = MOTOR_THRUST_DATA Motor_B6_4"
  by (simp_all add: windyRun_def unstableRocket_def prepare_def initialRocketState_def Let_def
      gToKg_def mmToM_def dt_def parachuteDelay_def parseInt_def nth_opt_def isWhiteSpace_def
      digitValue_def parachuteDeployTime_def)

lemma windyRun_wind: "effectiveWindSpeed windyRun s = Fin 8"
  by (simp add: effectiveWindSpeed_def windyRun_consts calculateWindSpeedAtHeight_def)

lemma windy_thrust:
  "time s = 0 \<Longrightarrow> thrustAt windyRun s = Fin 0"
  "time s = 0.02 \<Longrightarrow> thrustAt windyRun s = Fin 1.782"
  "time s = 0.04 \<Longrightarrow> thrustAt windyRun s = Fin 3.564"
  "time s = 0.06 \<Longrightarrow> thrustAt windyRun s = Fin 5.345"
  "time s = 0.08 \<Longrightarrow> thrustAt windyRun s = Fin 7.127"
  using thrustAt_index [of s 0 windyRun] thrustAt_index [of s 1 windyRun]
    thrustAt_index [of s 2 windyRun] thrustAt_index [of s 3 windyRun]
    thrustAt_index [of s 4 windyRun]
  by (simp_all add: windyRun_consts dt_def)

lemma windy_pass:
  assumes "x_pos s = 0" "y_pos s = Fin y" "\<bar>y\<bar> < 0.65" "vx s = Fin u" "vy s = Fin v"
    and "\<not> isParachuteEjected s" "\<not> isParachuteActive s"
    and "time s < 0.66" "thrustAt windyRun s = Fin th"
    and "stepCounter s + 1 < 10" "angleChangePerDt2 s = 0" "omega s = Fin 0"
    and "b = (th - 0.015 * 9.81) / 0.015"
    and "(u + (- (492793 / 1875)) * dt)\<^sup>2 + (v + b * dt)\<^sup>2 \<le> 10000"
  shows "\<exists>s'. loopBody windyRun s = Continue s'
    \<and> time s' = time s + dt
    \<and> x_pos s' = 0 \<and> y_pos s' = Fin (y + (v + b * dt) * dt)
    \<and> vx s' = Fin (u + (- (492793 / 1875)) * dt) \<and> vy s' = Fin (v + b * dt)
    \<and> \<not> isParachuteEjected s' \<and> \<not> isParachuteActive s'
    \<and> stepCounter s' = stepCounter s + 1 \<and> angleChangePerDt2 s' = 0 \<and> omega s' = Fin 0"
  by (rule rail_pass [where w = 8 and m = "0.015" and th = th and bd = "0.04"
        and bl = "10.057", OF _ _ _ _ _ _ _ _ _ _ _ _ _ _ _ _ _ _ _ _ _ _ assms(14)])
    (use assms in \<open>simp_all add: windyRun_consts windyRun_wind ANGLE_STEPS_PER_UPDATE_def js_eq_def\<close>)

lemma initialState_windyRun:
  "x_pos (initialState windyRun) = 0" "y_pos (initialState windyRun) = Fin 0"
  "vx (initialState windyRun) = Fin 0" "vy (initialState windyRun) = Fin 0"
  "\<not> isParachuteEjected (initialState windyRun)" "\<not> isParachuteActive (initialState windyRun)"
  "time (initialState windyRun) = 0" "stepCounter (initialState windyRun) = 0"
  "angleChangePerDt2 (initialState windyRun) = 0" "omega (initialState windyRun) = Fin 0"
  "isTorqueStableOK (initialState windyRun)" "data (initialState windyRun) = []"
  by (simp_all add: initialState_def windyRun_consts)

text \<open>The five passes on the rail and the state in which the sixth pass begins.\<close>

lemma windy_rail:
  "\<exists>s5. reaches windyRun (initialState windyRun) s5
     \<and> time s5 = 0.1 \<and> x_pos s5 = 0 \<and> y_pos s5 = Fin (44573 / 50000)
     \<and> vx s5 = Fin (- (492793 / 18750)) \<and> vy s5 = Fin (68329 / 3000)
     \<and> \<not> isParachuteEjected s5 \<and> \<not> isParachuteActive s5 \<and> omega s5 = Fin 0
     \<and> length (data s5) = 5"
proof -
  let ?S = windyRun
  define s0 where "s0 = initialState windyRun"
  have s0: "time s0 = 0" "x_pos s0 = 0" "y_pos s0 = Fin 0" "vx s0 = Fin 0" "vy s0 = Fin 0"
    "\<not> isParachuteEjected s0" "\<not> isParachuteActive s0"
    "stepCounter s0 = 0" "angleChangePerDt2 s0 = 0" "omega s0 = Fin 0"
    by (simp_all add: s0_def initialState_windyRun)
  have d0: "length (data s0) = 0"
    by (simp add: s0_def initialState_windyRun)
  have r0: "reaches ?S s0 s0"
    by (rule reaches.start)
  have c0: "loopCondition s0"
    by (simp add: loopCondition_def s0 MAX_TIME_def)
  obtain s1 where l0: "loopBody ?S s0 = Continue s1"
    and s1: "time s1 = 0.02" "x_pos s1 = 0" "y_pos s1 = Fin (- (981 / 250000))"
      "vx s1 = Fin (- (492793 / 93750))" "vy s1 = Fin (- (981 / 5000))"
      "\<not> isParachuteEjected s1" "\<not> isParachuteActive s1"
      "stepCounter s1 = 1" "angleChangePerDt2 s1 = 0" "omega s1 = Fin 0"
    using windy_pass [of s0 "0" "0" "0" "0" "- (981 / 100)"] windy_thrust(1) [of s0]
    by (auto simp: s0 dt_def power2_eq_square)
  have r1: "reaches ?S s0 s1"
    using r0 c0 l0 by (rule reaches.pass)
  have d1: "length (data s1) = 1"
    using loopBody_Continue_state [OF l0] d0 by auto
  have c1: "loopCondition s1"
    by (simp add: loopCondition_def s1 MAX_TIME_def)
  obtain s2 where l1: "loopBody ?S s1 = Continue s2"
    and s2: "time s2 = 0.04" "x_pos s2 = 0" "y_pos s2 = Fin (8937 / 250000)"
      "vx s2 = Fin (- (492793 / 46875))" "vy s2 = Fin (4959 / 2500)"
      "\<not> isParachuteEjected s2" "\<not> isParachuteActive s2"
      "stepCounter s2 = 2" "angleChangePerDt2 s2 = 0" "omega s2 = Fin 0"
    using windy_pass [of s1 "- (981 / 250000)" "- (492793 / 93750)" "- (981 / 5000)" "1.782" "10899 / 100"] windy_thrust(2) [of s1]
    by (auto simp: s1 dt_def power2_eq_square)
  have r2: "reaches ?S s0 s2"
    using r1 c1 l1 by (rule reaches.pass)
  have d2: "length (data s2) = 2"
    using loopBody_Continue_state [OF l1] d1 by auto
  have c2: "loopCondition s2"
    by (simp add: loopCondition_def s2 MAX_TIME_def)
  obtain s3 where l2: "loopBody ?S s2 = Continue s3"
    and s3: "time s3 = 0.06" "x_pos s3 = 0" "y_pos s3 = Fin (20817 / 125000)"
      "vx s3 = Fin (- (492793 / 31250))" "vy s3 = Fin (32697 / 5000)"
      "\<not> isParachuteEjected s3" "\<not> isParachuteActive s3"
      "stepCounter s3 = 3" "angleChangePerDt2 s3 = 0" "omega s3 = Fin 0"
    using windy_pass [of s2 "8937 / 250000" "- (492793 / 46875)" "4959 / 2500" "3.564" "22779 / 100"] windy_thrust(3) [of s2]
    by (auto simp: s2 dt_def power2_eq_square)
  have r3: "reaches ?S s0 s3"
    using r2 c2 l2 by (rule reaches.pass)
  have d3: "length (data s3) = 3"
    using loopBody_Continue_state [OF l2] d2 by auto
  have c3: "loopCondition s3"
    by (simp add: loopCondition_def s3 MAX_TIME_def)
  obtain s4 where l3: "loopBody ?S s3 = Continue s4"
    and s4: "time s4 = 0.08" "x_pos s4 = 0" "y_pos s4 = Fin (6539 / 15000)"
      "vx s4 = Fin (- (985586 / 46875))" "vy s4 = Fin (25256 / 1875)"
      "\<not> isParachuteEjected s4" "\<not> isParachuteActive s4"
      "stepCounter s4 = 4" "angleChangePerDt2 s4 = 0" "omega s4 = Fin 0"
    using windy_pass [of s3 "20817 / 125000" "- (492793 / 31250)" "32697 / 5000" "5.345" "103957 / 300"] windy_thrust(4) [of s3]
    by (auto simp: s3 dt_def power2_eq_square)
  have r4: "reaches ?S s0 s4"
    using r3 c3 l3 by (rule reaches.pass)
  have d4: "length (data s4) = 4"
    using loopBody_Continue_state [OF l3] d3 by auto
  have c4: "loopCondition s4"
    by (simp add: loopCondition_def s4 MAX_TIME_def)
  obtain s5 where l4: "loopBody ?S s4 = Continue s5"
    and s5: "time s5 = 0.1" "x_pos s5 = 0" "y_pos s5 = Fin (44573 / 50000)"
      "vx s5 = Fin (- (492793 / 18750))" "vy s5 = Fin (68329 / 3000)"
      "\<not> isParachuteEjected s5" "\<not> isParachuteActive s5"
      "stepCounter s5 = 5" "angleChangePerDt2 s5 = 0" "omega s5 = Fin 0"
    using windy_pass [of s4 "6539 / 15000" "- (985586 / 46875)" "25256 / 1875" "7.127" "139597 / 300"] windy_thrust(5) [of s4]
    by (auto simp: s4 dt_def power2_eq_square)
  have r5: "reaches ?S s0 s5"
    using r4 c4 l4 by (rule reaches.pass)
  have d5: "length (data s5) = 5"
    using loopBody_Continue_state [OF l4] d4 by auto
  show ?thesis
    unfolding s0_def [symmetric]
    using r5 d5 s5 by blast
qed


lemma lift_zero_infinite_ac: "calculateLiftMoment v w fa P sa NInf (Fin c) = 0"
proof -
  have "\<not> isFinite \<bar>X * NInf\<bar> \<and> \<not> isFinite (- \<bar>X * NInf\<bar>)" for X
    by (cases X) (simp_all add: times_num_def abs_num_def uminus_num_def signed_inf_def isFinite_def)
  then show ?thesis
    by (simp add: calculateLiftMoment_def Let_def mmToM_def divide_num_def signed_inf_def
        minus_num_def)
qed

lemma drag_zero_infinite_ac: "calculateDragMoment v w fa P sa NInf (Fin c) = 0"
proof -
  have "\<not> isFinite \<bar>X * NInf\<bar> \<and> \<not> isFinite (- \<bar>X * NInf\<bar>)" for X
    by (cases X) (simp_all add: times_num_def abs_num_def uminus_num_def signed_inf_def isFinite_def)
  then show ?thesis
    by (simp add: calculateDragMoment_def Let_def mmToM_def divide_num_def signed_inf_def
        minus_num_def)
qed

lemma windyRun_ac: "acData windyRun = NInf"
  by (simp add: windyRun_def prepare_def Let_def calculateAerodynamicCenter_def unstableRocket_def
      initialRocketState_def js_eq_def calculateVolume_def mmToM_def divide_num_def
      signed_inf_def times_num_def plus_num_def minus_num_def power2_eq_square
      divide_less_0_iff mult_less_0_iff)

lemma windyRun_areas:
  "totalFinArea (areas windyRun) = Fin (9 / 5000)"
  by (simp_all add: windyRun_def prepare_def Let_def calculateProjectedArea_def unstableRocket_def
      initialRocketState_def js_eq_def mmToM_def)

lemma windyRun_cp:
  "centerOfPressure (cpData windyRun) = Fin (1020475709 / 201660)"
  by (simp_all add: windyRun_def prepare_def Let_def calculateCenterOfPressure_def
      calculateProjectedArea_def unstableRocket_def
      initialRocketState_def js_eq_def mmToM_def)

lemma windyRun_rocket:
  "centerOfGravity (rocket windyRun) = 150" "noseHeight (rocket windyRun) = 57"
  "bodyHeight (rocket windyRun) = 10000"
  by (simp_all add: windyRun_def prepare_def Let_def unstableRocket_def initialRocketState_def)


lemma windy_free_flight:
  assumes "time s = 0.1" "x_pos s = 0" "y_pos s = Fin (44573 / 50000)"
    "vx s = Fin (- (492793 / 18750))" "vy s = Fin (68329 / 3000)"
    "\<not> isParachuteEjected s" "\<not> isParachuteActive s" "omega s = Fin 0"
  shows "torqueComputed windyRun s" "\<bar>rawTorque windyRun s\<bar> > TORQUE_THRESHOLD"
proof -
  have p: "updateParachute windyRun s = s"
    using assms by (intro updateParachute_idle) (simp_all add: windyRun_consts)
  have r: "\<not> onLaunchRail s"
    using assms onLaunchRail_rail [of s "44573 / 50000"] by simp
  have "1 < sqrt ((492793 / 18750) * (492793 / 18750) + (68329 / 3000) * (68329 / 3000) :: real)"
    by (rule real_less_rsqrt) simp
  then have v: "velocity s > 1.0"
    using assms velocity_Fin [of s "- (492793 / 18750)" "68329 / 3000"] by simp
  show "torqueComputed windyRun s"
    using assms p r v by (simp add: torqueComputed_def windyRun_consts)
  have z: "\<not> isCurrentlyZeroWind windyRun s"
    by (simp add: isCurrentlyZeroWind_def windyRun_wind)
  have w: "adjustedOmega windyRun s = Fin 0"
    using assms by (simp add: adjustedOmega_def specialAngle_def windyRun_consts js_eq_def)
  have m: "moments windyRun s = (0, 0, Fin (11246281007364811 / 630187500000000), 0)"
    using z by (simp add: moments_def windyRun_ac windyRun_rocket lift_zero_infinite_ac
        drag_zero_infinite_ac fin_moment_zero w windyRun_wind windyRun_areas windyRun_cp
        windyRun_consts calculateWindMoment_def Let_def isNaN_def mmToM_def isFinite_def)
  show "\<bar>rawTorque windyRun s\<bar> > TORQUE_THRESHOLD"
    by (simp add: rawTorque_def m TORQUE_THRESHOLD_def)
qed

subsection \<open>Runs from the initial state\<close>

lemma velocity_initialState: "velocity (initialState S) = Fin 0"
  by (simp add: velocity_def initialState_def Fin_arith)

lemma not_torqueComputed_initialState: "\<not> torqueComputed S (initialState S)"
  by (simp add: torqueComputed_def velocity_initialState Fin_compare)

lemma loopCondition_initialState: "loopCondition (initialState S)"
  by (simp add: loopCondition_def initialState_def MAX_TIME_def)

lemma first_pass: "\<exists>s1. loopBody S (initialState S) = Continue s1"
proof -
  have "\<nexists>s'. loopBody S (initialState S) = Break s'"
    using loopBody_Break_iff [of S "initialState S"] not_torqueComputed_initialState [of S]
    by blast
  then show ?thesis
    by (cases "loopBody S (initialState S)") auto
qed

lemma reaches_trans: "reaches S t u \<Longrightarrow> reaches S s t \<Longrightarrow> reaches S s u"
  by (induction rule: reaches.induct) (auto intro: reaches.pass)

text \<open>
  The loop ends in a state in which a pass would begin but the loop condition fails,
  or at the \<open>break\<close> of a pass.
\<close>

lemma simulate_final:
  "\<exists>t. reaches S s t
     \<and> (if loopCondition t then \<exists>u. loopBody S t = Break u \<and> simulate S s = u
        else simulate S s = t)"
proof (induction S s rule: simulate.induct)
  case (1 S s)
  show ?case
  proof (cases "loopCondition s")
    case False
    then have "simulate S s = s" by (rule simulate_stop)
    with False reaches.start [of S s] show ?thesis by auto
  next
    case True
    show ?thesis
    proof (cases "loopBody S s")
      case (Break u)
      with True have "simulate S s = u" by (simp add: simulate_break)
      with True Break reaches.start [of S s] show ?thesis by auto
    next
      case (Continue u)
      from "1.IH" [OF True Continue] obtain t where t: "reaches S u t"
        "if loopCondition t then \<exists>v. loopBody S t = Break v \<and> simulate S u = v
         else simulate S u = t"
        by blast
      have su: "reaches S s u"
        using reaches.start [of S s] True Continue by (rule reaches.pass)
      have "reaches S s t" using t(1) su by (rule reaches_trans)
      moreover have "simulate S s = simulate S u"
        using True Continue by (rule simulate_continue)
      ultimately show ?thesis using t(2) by auto
    qed
  qed
qed

text \<open>
  What holds whenever a pass begins: the samples recorded so far were taken at times
  from 0 on, before the current time and before \<open>MAX_TIME\<close>; the last one holds the
  current height and was taken one step ago; the torque guard has not tripped.
\<close>

lemma reaches_initialState:
  assumes "reaches S (initialState S) s"
  shows "0 \<le> time s
    \<and> (\<forall>d\<in>set (data s). \<exists>t. d_time d = Fin t \<and> 0 \<le> t \<and> t < time s \<and> t < MAX_TIME)
    \<and> (if data s = [] then s = initialState S
        else d_time (last (data s)) = Fin (time s - dt) \<and> d_height (last (data s)) = y_pos s)
    \<and> isTorqueStableOK s"
  using assms
proof (induction "initialState S" s rule: reaches.induct)
  case start
  show ?case by (simp add: initialState_def)
next
  case (pass t u)
  have b: "loopBody S t = Continue u" and c: "loopCondition t" by fact+
  from loopBody_Continue_state [OF b] obtain e where
    e: "data u = data t @ [e]" "d_time e = Fin (time t)" "d_height e = y_pos u"
      "isTorqueStableOK u = isTorqueStableOK t"
    by blast
  have tu: "time u = time t + dt" using b by (rule time_loopBody)
  have lt: "time t < MAX_TIME" using c by (simp add: loopCondition_def)
  have IH: "0 \<le> time t
    \<and> (\<forall>d\<in>set (data t). \<exists>x. d_time d = Fin x \<and> 0 \<le> x \<and> x < time t \<and> x < MAX_TIME)
    \<and> (if data t = [] then t = initialState S
        else d_time (last (data t)) = Fin (time t - dt) \<and> d_height (last (data t)) = y_pos t)
    \<and> isTorqueStableOK t"
    using pass by simp
  from IH have t0: "0 \<le> time t" by simp
  have "\<exists>x. d_time d = Fin x \<and> 0 \<le> x \<and> x < time u \<and> x < MAX_TIME" if "d \<in> set (data u)" for d
  proof (cases "d = e")
    case True
    then show ?thesis using e(2) t0 lt tu by (auto simp: dt_def)
  next
    case False
    with that e(1) have "d \<in> set (data t)" by simp
    with IH obtain x where "d_time d = Fin x" "0 \<le> x" "x < time t" "x < MAX_TIME"
      by blast
    then show ?thesis using tu by (auto simp: dt_def)
  qed
  then show ?case using e tu t0 IH by (simp add: dt_def)
qed

lemma reaches_data:
  assumes "reaches S (initialState S) s" "torqueComputed S s"
  shows "data s \<noteq> []"
  using reaches_initialState [OF assms(1)] assms(2) not_torqueComputed_initialState [of S]
  by (auto split: if_splits)

text \<open>The state the loop ends in, when it was started in the initial state.\<close>

lemma simulate_initialState:
  fixes S
  defines "f \<equiv> simulate S (initialState S)"
  shows "data f \<noteq> []"
    and "\<forall>d\<in>set (data f). \<exists>t. d_time d = Fin t \<and> 0 \<le> t \<and> t < MAX_TIME"
    and "d_time (last (data f)) = Fin (time f - dt)"
    and "d_height (last (data f)) = y_pos f"
    and "time f - dt < MAX_TIME"
    and "isTorqueStableOK f \<Longrightarrow> \<not> loopCondition f"
    and "isTorqueStableOK f \<longleftrightarrow>
      \<not> (\<exists>s. reaches S (initialState S) s \<and> loopCondition s
            \<and> torqueComputed S s \<and> \<bar>rawTorque S s\<bar> > TORQUE_THRESHOLD)"
proof -
  from simulate_final [of S "initialState S"] obtain t where
    r: "reaches S (initialState S) t" and
    c: "if loopCondition t then \<exists>u. loopBody S t = Break u \<and> f = u else f = t"
    unfolding f_def by blast
  note inv = reaches_initialState [OF r]
  have brk: "data f = data t \<and> time f = time t \<and> y_pos f = y_pos t \<and> \<not> isTorqueStableOK f
      \<and> torqueComputed S t \<and> \<bar>rawTorque S t\<bar> > TORQUE_THRESHOLD"
    if "loopCondition t"
  proof -
    from c that obtain u where u: "loopBody S t = Break u" "f = u" by auto
    from loopBody_Break_state [OF u(1)] loopBody_Break_iff [of S t] u show ?thesis by auto
  qed
  have same: "data f = data t \<and> time f = time t \<and> y_pos f = y_pos t"
    using c brk by (cases "loopCondition t") auto
  have ne: "data t \<noteq> []"
  proof (cases "loopCondition t")
    case True
    with brk have "torqueComputed S t" by simp
    with r show ?thesis by (rule reaches_data)
  next
    case False
    then have "t \<noteq> initialState S" using loopCondition_initialState [of S] by auto
    with inv show ?thesis by (auto split: if_splits)
  qed
  show "data f \<noteq> []" using ne same by simp
  show "\<forall>d\<in>set (data f). \<exists>t. d_time d = Fin t \<and> 0 \<le> t \<and> t < MAX_TIME"
    using inv same by auto
  show "d_time (last (data f)) = Fin (time f - dt)" using inv same ne by simp
  show "d_height (last (data f)) = y_pos f" using inv same ne by simp
  show "time f - dt < MAX_TIME"
  proof -
    from ne have "last (data t) \<in> set (data t)" by simp
    with inv obtain x where "d_time (last (data t)) = Fin x" "x < MAX_TIME" by blast
    moreover have "d_time (last (data t)) = Fin (time t - dt)" using inv ne by simp
    ultimately show ?thesis using same by simp
  qed
  show "\<not> loopCondition f" if "isTorqueStableOK f"
    using that c brk by (cases "loopCondition t") auto
  show "isTorqueStableOK f \<longleftrightarrow>
      \<not> (\<exists>s. reaches S (initialState S) s \<and> loopCondition s
            \<and> torqueComputed S s \<and> \<bar>rawTorque S s\<bar> > TORQUE_THRESHOLD)"
  proof
    assume ok: "isTorqueStableOK f"
    show "\<not> (\<exists>s. reaches S (initialState S) s \<and> loopCondition s
            \<and> torqueComputed S s \<and> \<bar>rawTorque S s\<bar> > TORQUE_THRESHOLD)"
    proof
      assume "\<exists>s. reaches S (initialState S) s \<and> loopCondition s
            \<and> torqueComputed S s \<and> \<bar>rawTorque S s\<bar> > TORQUE_THRESHOLD"
      then obtain s where s: "reaches S (initialState S) s" "loopCondition s"
        "torqueComputed S s" "\<bar>rawTorque S s\<bar> > TORQUE_THRESHOLD" by blast
      from loopBody_Break_iff [of S s] s obtain u where u: "loopBody S s = Break u" by blast
      have "f = simulate S s" unfolding f_def using s(1) by (rule simulate_reaches)
      also have "\<dots> = u" using s(2) u by (rule simulate_break)
      finally show False using loopBody_Break_state [OF u] ok by simp
    qed
  next
    assume n: "\<not> (\<exists>s. reaches S (initialState S) s \<and> loopCondition s
            \<and> torqueComputed S s \<and> \<bar>rawTorque S s\<bar> > TORQUE_THRESHOLD)"
    have "\<not> loopCondition t" using n r brk by blast
    with c have "f = t" by simp
    with inv show "isTorqueStableOK f" by simp
  qed
qed

text \<open>A pass in which the torque guard trips ends the run.\<close>

lemma simulate_abort:
  assumes "reaches S (initialState S) s" "loopCondition s"
    "torqueComputed S s" "\<bar>rawTorque S s\<bar> > TORQUE_THRESHOLD"
  shows "data (simulate S (initialState S)) = data s"
    and "time (simulate S (initialState S)) = time s"
    and "\<not> isTorqueStableOK (simulate S (initialState S))"
proof -
  from loopBody_Break_iff [of S s] assms obtain u where u: "loopBody S s = Break u" by blast
  have "simulate S (initialState S) = simulate S s" using assms(1) by (rule simulate_reaches)
  also have "\<dots> = u" using assms(2) u by (rule simulate_break)
  finally have "simulate S (initialState S) = u" .
  with loopBody_Break_state [OF u]
  show "data (simulate S (initialState S)) = data s"
    and "time (simulate S (initialState S)) = time s"
    and "\<not> isTorqueStableOK (simulate S (initialState S))"
    by simp_all
qed

lemma calculateFlightPath_result:
  "calculateFlightPath p a w prof cfg =
     Inr (flightResultOf (prepare p a w prof cfg)
            (simulate (prepare p a w prof cfg) (initialState (prepare p a w prof cfg))))"
  using simulate_initialState(1) [of "prepare p a w prof cfg"]
  by (simp add: calculateFlightPath_def Let_def)

subsection \<open>The torque guard and the end of the run\<close>


lemma loopCondition_flight: "y_pos s = Fin y \<Longrightarrow> 0 \<le> y \<Longrightarrow> time s < MAX_TIME \<Longrightarrow> loopCondition s"
  by (simp add: loopCondition_def Fin_compare)

lemma windy_flight:
  "calculateFlightPath unstableRocket 0 8 uniform None =
     Inr (flightResultOf windyRun (simulate windyRun (initialState windyRun)))"
  unfolding windyRun_def by (rule calculateFlightPath_result)


lemma windy_simulation:
  "length (data (simulate windyRun (initialState windyRun))) = 5
   \<and> d_time (last (data (simulate windyRun (initialState windyRun)))) = Fin 0.08
   \<and> \<not> isTorqueStableOK (simulate windyRun (initialState windyRun))"
proof -
  from windy_rail obtain s5 where r: "reaches windyRun (initialState windyRun) s5"
    and s5: "time s5 = 0.1" "x_pos s5 = 0" "y_pos s5 = Fin (44573 / 50000)"
      "vx s5 = Fin (- (492793 / 18750))" "vy s5 = Fin (68329 / 3000)"
      "\<not> isParachuteEjected s5" "\<not> isParachuteActive s5" "omega s5 = Fin 0"
    and n: "length (data s5) = 5"
    by blast
  have c: "loopCondition s5"
    using s5(3) by (rule loopCondition_flight) (simp_all add: s5 MAX_TIME_def)
  note q = windy_free_flight [OF s5]
  note a = simulate_abort [OF r c q]
  from n have "data s5 \<noteq> []" by auto
  with reaches_initialState [OF r] have "d_time (last (data s5)) = Fin (time s5 - dt)"
    by simp
  then have "d_time (last (data s5)) = Fin 0.08"
    by (simp add: s5 dt_def)
  with a n show ?thesis by simp
qed

text \<open>
  C1. During free flight, powered or coasting, a pass in which the magnitude of the raw
  torque (the sum of the four moments) exceeds 10 N m breaks out of the loop: the pass
  records no sample and no later pass is made, so \<open>calculateFlightPath\<close> returns the
  samples recorded before that pass, with \<open>isTorqueStableOK\<close> false; the pass began at
  a time before 20 s, and every sample was taken before it. The flag is false in no
  other case.
\<close>

theorem torque_guard_aborts_run:
  assumes "S = prepare p a w prof cfg"
    and "reaches S (initialState S) s" and "loopCondition s"
    and "torqueComputed S s" and "\<bar>rawTorque S s\<bar> > TORQUE_THRESHOLD"
  shows "(\<exists>u. loopBody S s = Break u \<and> simulate S (initialState S) = u)
    \<and> (\<exists>r. calculateFlightPath p a w prof cfg = Inr r
          \<and> r_data r = data s
          \<and> \<not> as_isTorqueStableOK (r_angleStability r)
          \<and> \<not> as_isStabilityOverallOK (r_angleStability r)
          \<and> (\<forall>d\<in>set (r_data r). \<exists>t. d_time d = Fin t \<and> t < time s))
    \<and> time s < MAX_TIME
    \<and> (\<forall>S'. isTorqueStableOK (simulate S' (initialState S')) \<longleftrightarrow>
          \<not> (\<exists>s'. reaches S' (initialState S') s' \<and> loopCondition s'
                \<and> torqueComputed S' s' \<and> \<bar>rawTorque S' s'\<bar> > TORQUE_THRESHOLD))"
proof (intro conjI)
  from loopBody_Break_iff [of S s] assms obtain u where u: "loopBody S s = Break u" by blast
  have "simulate S (initialState S) = simulate S s" using assms(2) by (rule simulate_reaches)
  also have "\<dots> = u" using assms(3) u by (rule simulate_break)
  finally show "\<exists>u. loopBody S s = Break u \<and> simulate S (initialState S) = u"
    using u by blast
  note a = simulate_abort [OF assms(2-5)]
  have "\<forall>d\<in>set (data s). \<exists>t. d_time d = Fin t \<and> t < time s"
    using reaches_initialState [OF assms(2)] by blast
  then show "\<exists>r. calculateFlightPath p a w prof cfg = Inr r
          \<and> r_data r = data s
          \<and> \<not> as_isTorqueStableOK (r_angleStability r)
          \<and> \<not> as_isStabilityOverallOK (r_angleStability r)
          \<and> (\<forall>d\<in>set (r_data r). \<exists>t. d_time d = Fin t \<and> t < time s)"
    using a by (simp add: calculateFlightPath_result assms(1) [symmetric] flightResultOf_def)
  show "time s < MAX_TIME" using assms(3) by (simp add: loopCondition_def)
  show "\<forall>S'. isTorqueStableOK (simulate S' (initialState S')) \<longleftrightarrow>
          \<not> (\<exists>s'. reaches S' (initialState S') s' \<and> loopCondition s'
                \<and> torqueComputed S' s' \<and> \<bar>rawTorque S' s'\<bar> > TORQUE_THRESHOLD)"
    using simulate_initialState(7) by blast
qed

text \<open>
  The long rocket in a wind of 8 m/s: the sixth pass, the first off the rail, finds a
  wind moment of about 17.8 N m and ends the run with five samples.
\<close>

theorem torque_guard_aborts_run_witness:
  "\<not> isl (calculateFlightPath unstableRocket 0 8 uniform None)
   \<and> length (r_data (projr (calculateFlightPath unstableRocket 0 8 uniform None))) = 5
   \<and> \<not> as_isTorqueStableOK
        (r_angleStability (projr (calculateFlightPath unstableRocket 0 8 uniform None)))"
proof -
  from windy_rail obtain s5 where r: "reaches windyRun (initialState windyRun) s5"
    and s5: "time s5 = 0.1" "x_pos s5 = 0" "y_pos s5 = Fin (44573 / 50000)"
      "vx s5 = Fin (- (492793 / 18750))" "vy s5 = Fin (68329 / 3000)"
      "\<not> isParachuteEjected s5" "\<not> isParachuteActive s5" "omega s5 = Fin 0"
    and n: "length (data s5) = 5"
    by blast
  have c: "loopCondition s5"
    using s5(3) by (rule loopCondition_flight) (simp_all add: s5 MAX_TIME_def)
  note q = windy_free_flight [OF s5]
  from torque_guard_aborts_run [OF windyRun_def r c q]
  obtain res where "calculateFlightPath unstableRocket 0 8 uniform None = Inr res"
    "r_data res = data s5" "\<not> as_isTorqueStableOK (r_angleStability res)"
    by blast
  with n show ?thesis by simp
qed

text \<open>
  C5. The run of the long rocket in a wind of 8 m/s is stopped by the torque guard in
  its sixth pass. \<open>calculateFlightPath\<close> returns the ordinary result object: the five
  samples recorded before the abort as \<open>data\<close>, and the flags \<open>isTorqueStableOK\<close> and
  \<open>isStabilityOverallOK\<close> false. The result type has no field for an error.
\<close>

theorem aborted_run_returns_partial_trajectory:
  "\<exists>r. calculateFlightPath unstableRocket 0 8 uniform None = Inr r
     \<and> length (r_data r) = 5
     \<and> d_time (last (r_data r)) = Fin 0.08
     \<and> \<not> as_isTorqueStableOK (r_angleStability r)
     \<and> \<not> as_isStabilityOverallOK (r_angleStability r)"
  unfolding windy_flight using windy_simulation
  by (simp add: flightResultOf_def)




subsection \<open>The parachute\<close>





text \<open>
  The parachute update at the time of full deployment, in a state made up for the
  example: the flag is set, the progress is 1 and both velocities are cut to a tenth.
\<close>

lemma updateParachute_full_deployment:
  "isParachuteActive (updateParachute windyRun
      ((initialState windyRun)\<lparr>time := 5.66, vx := 10, vy := - 20, isParachuteEjected := True\<rparr>))
   \<and> parachuteDeploymentProgress (updateParachute windyRun
      ((initialState windyRun)\<lparr>time := 5.66, vx := 10, vy := - 20, isParachuteEjected := True\<rparr>)) = 1
   \<and> vx (updateParachute windyRun
      ((initialState windyRun)\<lparr>time := 5.66, vx := 10, vy := - 20, isParachuteEjected := True\<rparr>)) = 1
   \<and> vy (updateParachute windyRun
      ((initialState windyRun)\<lparr>time := 5.66, vx := 10, vy := - 20, isParachuteEjected := True\<rparr>)) = - 2"
  by (simp add: updateParachute_def Let_def windyRun_consts initialState_def
      parachuteDeployTime_def)

text \<open>One pass earlier the progress is 0.98 and the velocities are unchanged.\<close>

lemma updateParachute_deploying:
  "\<not> isParachuteActive (updateParachute windyRun
      ((initialState windyRun)\<lparr>time := 5.64, vx := 10, vy := - 20, isParachuteEjected := True\<rparr>))
   \<and> parachuteDeploymentProgress (updateParachute windyRun
      ((initialState windyRun)\<lparr>time := 5.64, vx := 10, vy := - 20, isParachuteEjected := True\<rparr>)) = 0.98
   \<and> vx (updateParachute windyRun
      ((initialState windyRun)\<lparr>time := 5.64, vx := 10, vy := - 20, isParachuteEjected := True\<rparr>)) = 10"
  by (simp add: updateParachute_def Let_def windyRun_consts initialState_def
      parachuteDeployTime_def)



subsection \<open>The fin moment\<close>

lemma num_plus_zero: "x + (0 :: number) = x"
  by (cases x) (simp_all add: plus_num_def)

text \<open>
  C10. Called with eight arguments, \<open>calculateFinMoment\<close> returns 0: its parameter
  \<open>centerOfGravity\<close>, the fourteenth, is \<open>undefined\<close>. So in every pass the fourth of
  the moments is 0, and the raw torque is the sum of the other three.
\<close>

theorem fin_moment_never_contributes:
  "calculateFinMoment a1 a2 a3 a4 a5 a6 a7 a8
       Undefined Undefined Undefined Undefined Undefined Undefined = 0
   \<and> (\<exists>mL mD mW. moments S s = (mL, mD, mW, 0) \<and> rawTorque S s = mL + mD + mW)"
proof
  show "calculateFinMoment a1 a2 a3 a4 a5 a6 a7 a8
       Undefined Undefined Undefined Undefined Undefined Undefined = 0"
    by (rule fin_moment_zero)
  obtain mL mD mW mF where m: "moments S s = (mL, mD, mW, mF)"
    by (cases "moments S s") auto
  from moments_finite [OF m] have "mF = 0" by simp
  with m have "moments S s = (mL, mD, mW, 0) \<and> rawTorque S s = mL + mD + mW"
    by (simp add: rawTorque_def num_plus_zero [unfolded zero_num])
  then show "\<exists>mL mD mW. moments S s = (mL, mD, mW, 0) \<and> rawTorque S s = mL + mD + mW"
    by blast
qed

section \<open>Landing prediction\<close>

text \<open>
  C9. When the last element of the flight data has a height of at most 0,
  \<open>predictLanding\<close> returns, with \<open>timeToLanding\<close> 0, \<open>isPrediction\<close> false and, as
  \<open>landingX\<close>, the \<open>physicsX\<close> of that element. The flight data may be passed as an array
  or as an object with the array as property \<open>data\<close>; a missing \<open>height\<close> or \<open>physicsX\<close>
  counts as 0.
\<close>

theorem predictLanding_landed:
  fixes rocketParams :: "rocketParams option" and windSpeed :: number
    and windProfile :: windProfileKey
  assumes "flightData = FlightArray xs \<or> flightData = FlightObject (Some xs)"
    and "xs \<noteq> []" and "last xs = Some lastDataPoint"
    and "orDefault (p_height lastDataPoint) 0 \<le> 0"
  shows "predictLanding rocketParams flightData windSpeed windProfile =
    Some \<lparr>landingX = orDefault (p_physicsX lastDataPoint) 0,
          landingDistance = \<bar>orDefault (p_physicsX lastDataPoint) 0\<bar>,
          timeToLanding = 0, isPrediction = False\<rparr>"
proof -
  have n: "xs ! (length xs - 1) = Some lastDataPoint"
    using assms(2,3) by (simp add: last_conv_nth)
  have l: "length xs \<noteq> 0" using assms(2) by simp
  from assms(1) show ?thesis
  proof
    assume "flightData = FlightArray xs"
    then show ?thesis
      using n l assms(4) by (simp add: predictLanding_def Let_def split: prod.splits)
  next
    assume "flightData = FlightObject (Some xs)"
    then show ?thesis
      using n l assms(4) by (simp add: predictLanding_def Let_def split: prod.splits)
  qed
qed

text \<open>
  The samples of the heavy rocket's run end below the launch point: the prediction for
  them is the position of the last sample, with no time to landing.
\<close>

theorem predictLanding_landed_witness:
  "predictLanding (Some heavyRocket)
     (FlightArray (map (\<lambda>d. Some (dataPointOf d))
        (data (simulate heavyRun (initialState heavyRun))))) 0 uniform =
   Some \<lparr>landingX = d_physicsX (last (data (simulate heavyRun (initialState heavyRun)))),
         landingDistance = \<bar>d_physicsX (last (data (simulate heavyRun (initialState heavyRun))))\<bar>,
         timeToLanding = 0, isPrediction = False\<rparr>"
proof -
  let ?ds = "data (simulate heavyRun (initialState heavyRun))"
  let ?xs = "map (\<lambda>d. Some (dataPointOf d)) ?ds"
  have ne: "?ds \<noteq> []" and h: "d_height (last ?ds) = Fin (- 0.035108)"
    using heavy_simulation by simp_all
  have 1: "?xs \<noteq> []" using ne by simp
  have 2: "last ?xs = Some (dataPointOf (last ?ds))" using ne by (simp add: last_map)
  have 3: "orDefault (p_height (dataPointOf (last ?ds))) 0 \<le> 0"
    by (simp add: orDefault_def dataPointOf_def h)
  have 0: "FlightArray ?xs = FlightArray ?xs \<or> FlightArray ?xs = FlightObject (Some ?xs)"
    by simp
  from predictLanding_landed [OF 0 1 2 3, of "Some heavyRocket" 0 uniform]
  show ?thesis by (simp add: orDefault_def dataPointOf_def)
qed

section \<open>Malformed parameter objects\<close>




end
